theory Spec2Isabelle
  imports Complex_Main
begin

section \<open>Conventions of the embedding\<close>

text \<open>
  The repository is a one-dimensional FDTD integrator of the Schroedinger equation written
  with numpy. Python floats and numpy float arrays are modelled as \<^typ>\<open>real\<close> and
  \<^typ>\<open>real list\<close>: the values of the wave function, of the potentials and of the grid
  coordinates are exact reals, without rounding, infinities or NaN. One quantity is
  computed as the code computes it, in IEEE double arithmetic: the number of grid points
  that \<open>np.arange\<close> produces, an integer that rounding can change (function \<open>fl\<close> below).
  Exceptions are values of the type \<open>error\<close>; a function that can raise returns
  \<open>error + 'a\<close> with \<open>Inl\<close> for the exception. Warnings issued through \<open>warnings.warn\<close>
  are returned as a list beside the result.
\<close>

datatype error = TypeError | ValueError | ZeroDivisionError | AttributeError | OverflowError

datatype warning =
    ScaleDoesNotContain
  | ClosestOutsideTolerance real real real

definition bind_err :: "error + 'a \<Rightarrow> ('a \<Rightarrow> error + 'b) \<Rightarrow> error + 'b" where
  "bind_err r f = (case r of Inl e \<Rightarrow> Inl e | Inr v \<Rightarrow> f v)"

section \<open>particle.py\<close>

record Particle =
  x0 :: real
  m :: real
  sigma :: real
  k0 :: real
  E :: real

text \<open>
  \<open>Particle.__init__(self, x0, sigma, k0=None, m=1)\<close>. The optional wavenumber is a
  \<^typ>\<open>real option\<close>. The attribute \<open>self.k0\<close> receives the default, but the energy is
  computed from the parameter \<open>k0\<close> itself, and \<open>None**2\<close> raises \<open>TypeError\<close>. The operands
  are evaluated left to right: \<open>hbar**2/2.0/m\<close> first (division of Python numbers by zero
  raises), then \<open>k0**2\<close>, then \<open>0.5/sigma**2\<close>.
\<close>

definition Particle_init :: "real \<Rightarrow> real \<Rightarrow> real option \<Rightarrow> real \<Rightarrow> error + Particle" where
  "Particle_init x0' sigma' k0' m' =
     (let hbar = (1::real);
          self_k0 = (case k0' of None \<Rightarrow> pi / 20 | Some k \<Rightarrow> k)
      in if m' = 0 then Inl ZeroDivisionError
         else case k0' of
                None \<Rightarrow> Inl TypeError
              | Some k \<Rightarrow>
                  if sigma'\<^sup>2 = 0 then Inl ZeroDivisionError
                  else Inr \<lparr>x0 = x0', m = m', sigma = sigma', k0 = self_k0,
                            E = (hbar\<^sup>2 / 2 / m') * (k\<^sup>2 + (1/2) / sigma'\<^sup>2)\<rparr>)"

text \<open>The call \<open>Particle(x0, sigma)\<close>: \<open>k0\<close> left unspecified, \<open>m\<close> at its default 1.\<close>

definition Particle_default_k0 :: "real \<Rightarrow> real \<Rightarrow> error + Particle" where
  "Particle_default_k0 x0' sigma' = Particle_init x0' sigma' None 1"

text \<open>The wave packet on an array of positions (numpy broadcasts the scalar operations).\<close>

definition Particle_real :: "Particle \<Rightarrow> real list \<Rightarrow> real \<Rightarrow> real list" where
  "Particle_real self x t =
     map (\<lambda>xk. exp (- (xk - t - x0 self)\<^sup>2 / (2 * (sigma self)\<^sup>2)) * cos (k0 self * xk)) x"

definition Particle_imag :: "Particle \<Rightarrow> real list \<Rightarrow> real \<Rightarrow> real list" where
  "Particle_imag self x t =
     map (\<lambda>xk. exp (- (xk - t - x0 self)\<^sup>2 / (2 * (sigma self)\<^sup>2)) * sin (k0 self * xk)) x"

definition Particle_prob :: "Particle \<Rightarrow> real list \<Rightarrow> real \<Rightarrow> real list" where
  "Particle_prob self x t =
     map2 (\<lambda>r i. r\<^sup>2 + i\<^sup>2) (Particle_real self x t) (Particle_imag self x t)"

section \<open>potentials.py\<close>

text \<open>
  The argument of \<open>Potential.f\<close> is either a scalar or something with \<open>__iter__\<close> (an
  array); \<open>f\<close> dispatches on that to \<open>_fx\<close> or \<open>_farr\<close>.
\<close>

datatype pyarg = Scalar real | Arr "real list"

text \<open>Python's builtin \<open>min\<close> and \<open>max\<close> over an iterable: \<open>ValueError\<close> on an empty one.\<close>

definition py_min :: "real list \<Rightarrow> error + real" where
  "py_min xs = (case xs of [] \<Rightarrow> Inl ValueError | y # ys \<Rightarrow> Inr (fold min ys y))"

definition py_max :: "real list \<Rightarrow> error + real" where
  "py_max xs = (case xs of [] \<Rightarrow> Inl ValueError | y # ys \<Rightarrow> Inr (fold max ys y))"

text \<open>\<open>np.where(mask)[0][0]\<close>: the first index at which the mask holds.\<close>

fun where_first :: "bool list \<Rightarrow> nat option" where
  "where_first [] = None"
| "where_first (b # bs) = (if b then Some 0 else map_option Suc (where_first bs))"

subsection \<open>NullPotential\<close>

definition NullPotential_fx :: "real \<Rightarrow> real" where
  "NullPotential_fx x = 0"

definition NullPotential_farr :: "real list \<Rightarrow> real list" where
  "NullPotential_farr x = replicate (length x) 0"

subsection \<open>PointPotential\<close>

text \<open>
  The instance holds exactly the attributes that \<open>__init__\<close> assigns: \<open>name\<close>, \<open>A\<close>, \<open>pos\<close>
  and \<open>epsilon\<close> (the tolerance parameter is stored under the name \<open>epsilon\<close>). Reading an
  attribute goes through \<open>PointPotential_getattr\<close>, which raises \<open>AttributeError\<close> for any
  name that was never assigned.
\<close>

record PointPotential =
  pp_name :: string
  pp_A :: real
  pp_pos :: real
  pp_epsilon :: real

definition PointPotential_init :: "real \<Rightarrow> real option \<Rightarrow> real option \<Rightarrow> PointPotential" where
  "PointPotential_init A pos tolerance =
     (let pos' = (case pos of None \<Rightarrow> 0 | Some p \<Rightarrow> p);
          tolerance' = (case tolerance of None \<Rightarrow> 1 / 10000 | Some e \<Rightarrow> e)
      in \<lparr>pp_name = ''Point potential'', pp_A = A, pp_pos = pos', pp_epsilon = tolerance'\<rparr>)"

definition PointPotential_getattr :: "PointPotential \<Rightarrow> string \<Rightarrow> error + real" where
  "PointPotential_getattr self attr =
     (case map_of [(''A'', pp_A self), (''pos'', pp_pos self), (''epsilon'', pp_epsilon self)] attr of
        None \<Rightarrow> Inl AttributeError
      | Some v \<Rightarrow> Inr v)"

text \<open>
  \<open>_fx\<close>: \<open>abs(x) <= (self.pos + self.tolerance)\<close>. The left operand is evaluated first
  (it cannot fail on a number), then \<open>self.pos\<close>, then \<open>self.tolerance\<close>.
\<close>

definition PointPotential_fx :: "PointPotential \<Rightarrow> real \<Rightarrow> error + real" where
  "PointPotential_fx self x =
     (let ax = \<bar>x\<bar>
      in bind_err (PointPotential_getattr self ''pos'') (\<lambda>p.
         bind_err (PointPotential_getattr self ''tolerance'') (\<lambda>tol.
         if ax \<le> p + tol then PointPotential_getattr self ''A'' else Inr 0)))"

text \<open>
  \<open>_farr\<close>: the range test with its warning, the index of the first closest coordinate,
  the tolerance test \<open>abs(x[idx]) > abs(self.pos + self.epsilon)\<close> with its warning, and
  the single assignment \<open>res[idx] = self.A\<close>. \<open>min(x)\<close> raises on an empty array.
\<close>

definition PointPotential_farr :: "PointPotential \<Rightarrow> real list \<Rightarrow> error + (warning list \<times> real list)" where
  "PointPotential_farr self x =
     (let res = replicate (length x) (0::real)
      in bind_err (py_min x) (\<lambda>mn.
         bind_err (py_max x) (\<lambda>mx.
         if mn > pp_pos self \<or> mx < pp_pos self then Inr ([ScaleDoesNotContain], res)
         else
           let shiftx = map (\<lambda>xk. \<bar>xk - pp_pos self\<bar>) x
           in bind_err (py_min shiftx) (\<lambda>ms.
              case where_first (map (\<lambda>s. s = ms) shiftx) of
                None \<Rightarrow> Inl ValueError
              | Some idx \<Rightarrow>
                  if \<bar>x ! idx\<bar> > \<bar>pp_pos self + pp_epsilon self\<bar>
                  then Inr ([ClosestOutsideTolerance (x ! idx) (pp_pos self) (pp_epsilon self)], res)
                  else Inr ([], res[idx := pp_A self])))))"

definition PointPotential_f :: "PointPotential \<Rightarrow> pyarg \<Rightarrow> error + (warning list \<times> pyarg)" where
  "PointPotential_f self x =
     (case x of
        Arr xs \<Rightarrow> bind_err (PointPotential_farr self xs) (\<lambda>(w, r). Inr (w, Arr r))
      | Scalar v \<Rightarrow> bind_err (PointPotential_fx self v) (\<lambda>r. Inr ([], Scalar r)))"

subsection \<open>BarrierPotential\<close>

record BarrierPotential =
  bp_A :: real
  bp_width :: real
  bp_pos :: real

definition BarrierPotential_init :: "real \<Rightarrow> real \<Rightarrow> real option \<Rightarrow> BarrierPotential" where
  "BarrierPotential_init A width pos =
     \<lparr>bp_A = A, bp_width = width, bp_pos = (case pos of None \<Rightarrow> 0 | Some p \<Rightarrow> p)\<rparr>"

definition BarrierPotential_fx :: "BarrierPotential \<Rightarrow> real \<Rightarrow> real" where
  "BarrierPotential_fx self x = (if \<bar>x\<bar> \<le> \<bar>bp_pos self + bp_width self\<bar> then bp_A self else 0)"

text \<open>\<open>res[mask] = A\<close>: assignment through a boolean mask of the same length.\<close>

definition mask_assign :: "real list \<Rightarrow> bool list \<Rightarrow> real \<Rightarrow> real list" where
  "mask_assign res msk v = map2 (\<lambda>r b. if b then v else r) res msk"

definition BarrierPotential_farr :: "BarrierPotential \<Rightarrow> real list \<Rightarrow> real list" where
  "BarrierPotential_farr self x =
     (let res = replicate (length x) (0::real);
          res1 = mask_assign res
                   (map (\<lambda>xk. xk \<ge> bp_pos self \<and> xk \<le> bp_pos self + bp_width self) x) (bp_A self);
          res2 = mask_assign res1
                   (map (\<lambda>xk. xk < bp_pos self \<and> xk \<ge> bp_pos self - bp_width self) x) (bp_A self)
      in res2)"

subsection \<open>StepPotential\<close>

record StepPotential =
  sp_A :: real
  sp_pos :: real

definition StepPotential_init :: "real \<Rightarrow> real option \<Rightarrow> StepPotential" where
  "StepPotential_init A pos = \<lparr>sp_A = A, sp_pos = (case pos of None \<Rightarrow> 0 | Some p \<Rightarrow> p)\<rparr>"

definition StepPotential_fx :: "StepPotential \<Rightarrow> real \<Rightarrow> real" where
  "StepPotential_fx self x = (if x < sp_pos self then sp_A self else 0)"

definition StepPotential_farr :: "StepPotential \<Rightarrow> real list \<Rightarrow> real list" where
  "StepPotential_farr self x =
     (let res = replicate (length x) (0::real)
      in mask_assign res (map (\<lambda>xk. xk \<ge> sp_pos self) x) (sp_A self))"

definition StepPotential_f :: "StepPotential \<Rightarrow> pyarg \<Rightarrow> pyarg" where
  "StepPotential_f self x =
     (case x of Arr xs \<Rightarrow> Arr (StepPotential_farr self xs)
              | Scalar v \<Rightarrow> Scalar (StepPotential_fx self v))"

subsection \<open>The potentials a simulation is given\<close>

datatype Potential =
    Null
  | Point PointPotential
  | Barrier BarrierPotential
  | Step StepPotential

text \<open>\<open>pot.f(self.scale)\<close> on the grid, which is an array: the \<open>_farr\<close> of the variant.\<close>

fun Potential_f_arr :: "Potential \<Rightarrow> real list \<Rightarrow> error + (warning list \<times> real list)" where
  "Potential_f_arr Null x = Inr ([], NullPotential_farr x)"
| "Potential_f_arr (Point p) x = PointPotential_farr p x"
| "Potential_f_arr (Barrier b) x = Inr ([], BarrierPotential_farr b x)"
| "Potential_f_arr (Step s) x = Inr ([], StepPotential_farr s x)"

section \<open>simulation.py\<close>

subsection \<open>numpy operations on one-dimensional arrays\<close>

text \<open>
  IEEE binary64 arithmetic: an operation on doubles returns the exact result rounded to the
  nearest double, ties to even. \<open>rne\<close> rounds a real to the nearest integer, ties to even;
  \<open>fl x\<close> is the double nearest to \<open>x\<close>: the nearest multiple of \<open>2 ^ (e - 52)\<close>, where
  \<open>e\<close> is the binary exponent of \<open>x\<close>, not below \<open>-1022\<close> (the subnormal range). A
  result of magnitude \<open>2 ^ 1024\<close> or more stands for an infinity.
\<close>

definition rne :: "real \<Rightarrow> int" where
  "rne y = (let f = \<lfloor>y\<rfloor>; r = y - of_int f
            in if r < 1 / 2 then f else if 1 / 2 < r then f + 1 else if even f then f else f + 1)"

definition fl :: "real \<Rightarrow> real" where
  "fl x = (if x = 0 then 0
           else let e = max \<lfloor>log 2 \<bar>x\<bar>\<rfloor> (- 1022); u = 2 powi (e - 52)
                in of_int (rne (x / u)) * u)"

text \<open>
  \<open>np.arange(start, stop, step)\<close> on Python numbers (doubles, or integers of magnitude
  below \<open>2 ^ 53\<close>). numpy computes the length from the Python objects:
  \<open>delta = stop - start\<close>, \<open>val = delta / step\<close> (a zero step raises
  \<open>ZeroDivisionError\<close>), both in double arithmetic, then \<open>ceil(val)\<close>, which must fit a
  signed 64-bit integer (an infinite \<open>val\<close> does not); a length that is not positive gives
  the empty array. The \<open>i\<close>-th coordinate is taken as the exact real \<open>start + i*step\<close>.
  (Memory limits on the length are not modelled.)
\<close>

definition arange :: "real \<Rightarrow> real \<Rightarrow> real \<Rightarrow> error + real list" where
  "arange start stop step =
     (if step = 0 then Inl ZeroDivisionError
      else let delta = fl (stop - start);
               val = fl (delta / step)
           in if 2 ^ 1024 \<le> \<bar>delta\<bar> \<or> \<lceil>val\<rceil> < - (2 ^ 63) \<or> 2 ^ 63 < \<lceil>val\<rceil>
              then Inl OverflowError
              else Inr (map (\<lambda>i. start + real i * step) [0..<nat \<lceil>val\<rceil>]))"

text \<open>
  Storing an array into a target of \<open>n\<close> elements (\<open>V += a\<close>, \<open>psi_r[PR] = a\<close>): numpy
  broadcasts a one-element array over the target, accepts an array of the target's length
  and raises \<open>ValueError\<close> for any other length.
\<close>

definition broadcast_to :: "nat \<Rightarrow> real list \<Rightarrow> error + real list" where
  "broadcast_to n a =
     (if length a = n then Inr a
      else if length a = 1 then Inr (replicate n (hd a))
      else Inl ValueError)"

text \<open>Elementwise arithmetic on arrays of one length, and a scalar times an array.\<close>

definition vadd :: "real list \<Rightarrow> real list \<Rightarrow> real list" where
  "vadd a b = map2 (+) a b"

definition vsub :: "real list \<Rightarrow> real list \<Rightarrow> real list" where
  "vsub a b = map2 (-) a b"

definition vmul :: "real list \<Rightarrow> real list \<Rightarrow> real list" where
  "vmul a b = map2 (*) a b"

definition smul :: "real \<Rightarrow> real list \<Rightarrow> real list" where
  "smul c a = map (\<lambda>v. c * v) a"

definition sdiv :: "real list \<Rightarrow> real \<Rightarrow> real list" where
  "sdiv a c = map (\<lambda>v. v / c) a"

text \<open>
  Indexing with an index array: \<open>a[IDX]\<close> reads, \<open>a[IDX] = vals\<close> writes. The index arrays
  of the time-stepping loop only hold indices below \<open>N\<close> (lemma \<open>IDX_in_range\<close>), so no
  read or write is out of range there.
\<close>

definition getidx :: "real list \<Rightarrow> nat list \<Rightarrow> real list" where
  "getidx a idx = map (\<lambda>k. a ! k) idx"

definition setidx :: "real list \<Rightarrow> nat list \<Rightarrow> real list \<Rightarrow> real list" where
  "setidx a idx vals = fold (\<lambda>(k, v) r. r[k := v]) (zip idx vals) a"

subsection \<open>Simulation.__init__ and evalPotentials\<close>

record Simulation =
  sim_N :: nat
  sim_T :: int
  sim_dx :: real
  sim_dt :: "real option"
  sim_scale :: "real list"
  sim_potentials :: "Potential list"
  sim_V :: "real list"
  sim_p :: Particle

text \<open>
  \<open>evalPotentials\<close>: \<open>V = np.zeros((self.N,))\<close>, then \<open>V += pot.f(self.scale)\<close> for each
  potential in turn. The warnings of the potentials are collected in order.
\<close>

fun evalPotentials_loop ::
  "Potential list \<Rightarrow> real list \<Rightarrow> warning list \<times> real list \<Rightarrow> error + (warning list \<times> real list)" where
  "evalPotentials_loop [] scale (ws, V) = Inr (ws, V)"
| "evalPotentials_loop (pot # pots) scale (ws, V) =
     bind_err (Potential_f_arr pot scale) (\<lambda>(w, a).
     bind_err (broadcast_to (length V) a) (\<lambda>a'.
     evalPotentials_loop pots scale (ws @ w, vadd V a')))"

definition evalPotentials ::
  "int \<Rightarrow> Potential list \<Rightarrow> real list \<Rightarrow> error + (warning list \<times> real list)" where
  "evalPotentials N potentials scale =
     (if N < 0 then Inl ValueError
      else evalPotentials_loop potentials scale ([], replicate (nat N) 0))"

text \<open>
  \<open>__init__(self, particle, potentials, N=1200, dx=1., xlims=None, T=None, dt=None)\<close>.
  \<open>xlims\<close> is a pair when given. \<open>N*dx\<close> is a product of Python numbers, rounded to a
  double (\<open>N\<close> is taken below \<open>2 ^ 53\<close>, so that its conversion to a double is exact). A
  negative \<open>N\<close> is rejected by \<open>np.zeros\<close> in \<open>evalPotentials\<close>, so the stored \<open>N\<close> is a
  natural number.
\<close>

definition Simulation_init ::
  "Particle \<Rightarrow> Potential list \<Rightarrow> int \<Rightarrow> real \<Rightarrow> (real \<times> real) option \<Rightarrow> int option \<Rightarrow> real option
     \<Rightarrow> error + (warning list \<times> Simulation)" where
  "Simulation_init particle potentials N dx xlims T dt =
     (let T' = (case T of None \<Rightarrow> 5 * N | Some t \<Rightarrow> t);
          startx = (case xlims of None \<Rightarrow> 0 | Some l \<Rightarrow> fst l);
          endx = (case xlims of None \<Rightarrow> fl (real_of_int N * dx) | Some l \<Rightarrow> snd l)
      in bind_err (arange startx endx dx) (\<lambda>scale.
         bind_err (evalPotentials N potentials scale) (\<lambda>(ws, V).
         Inr (ws, \<lparr>sim_N = nat N, sim_T = T', sim_dx = dx, sim_dt = dt, sim_scale = scale,
                    sim_potentials = potentials, sim_V = V, sim_p = particle\<rparr>))))"

subsection \<open>Simulation.simulate\<close>

text \<open>
  The time step (source lines 57 to 60). \<open>2*hbar**2/(self.p.m*self.dx**2)\<close> is a division
  of Python numbers and raises on a zero divisor; it is evaluated before \<open>self.V.max()\<close>,
  which raises \<open>ValueError\<close> on an empty array.
\<close>

definition derive_dt :: "Simulation \<Rightarrow> error + real" where
  "derive_dt self =
     (let hbar = (1::real)
      in case sim_dt self of
           Some d \<Rightarrow> Inr d
         | None \<Rightarrow>
             if m (sim_p self) * (sim_dx self)\<^sup>2 = 0 then Inl ZeroDivisionError
             else bind_err (py_max (sim_V self)) (\<lambda>vmax.
                  Inr (hbar / (2 * hbar\<^sup>2 / (m (sim_p self) * (sim_dx self)\<^sup>2) + vmax))))"

text \<open>
  The two \<open>3 \<times> N\<close> buffers, rows \<open>PA\<close>, \<open>PR\<close>, \<open>FU\<close> (past, present, future).
\<close>

record buffers =
  psi_r :: "real list list"
  psi_i :: "real list list"

definition PA :: nat where "PA = 0"
definition PR :: nat where "PR = 1"
definition FU :: nat where "FU = 2"

text \<open>
  Initialisation and normalisation (source lines 64 to 83): the present and past rows of
  both buffers receive the wave packet at \<open>t = 0\<close>, the future rows stay zero; then the
  whole buffers are divided by \<open>sqrt(P)\<close> and \<open>psi_p\<close> by \<open>P\<close>.
\<close>

definition initialise :: "Simulation \<Rightarrow> error + (buffers \<times> real list)" where
  "initialise self =
     (let N = sim_N self;
          psi_r0 = replicate 3 (replicate N (0::real));
          psi_i0 = replicate 3 (replicate N (0::real))
      in bind_err (broadcast_to N (Particle_real (sim_p self) (sim_scale self) 0)) (\<lambda>re.
         bind_err (broadcast_to N (Particle_imag (sim_p self) (sim_scale self) 0)) (\<lambda>im.
         let psi_r1 = psi_r0[PR := re];
             psi_i1 = psi_i0[PR := im];
             psi_r2 = psi_r1[PA := re];
             psi_i2 = psi_i1[PA := im];
             psi_p = Particle_prob (sim_p self) (sim_scale self) 0;
             P = sim_dx self * sum_list psi_p;
             nrm = sqrt P
         in Inr (\<lparr>psi_r = map (\<lambda>row. sdiv row nrm) psi_r2,
                   psi_i = map (\<lambda>row. sdiv row nrm) psi_i2\<rparr>,
                 sdiv psi_p P))))"

text \<open>
  One pass through the loop body (source lines 96 to 112). \<open>psi_rPR\<close> and \<open>psi_iPR\<close> are
  numpy views of the present rows: wherever the source reads them, the model reads the
  present row of the buffer as it is at that moment.
\<close>

definition update :: "real \<Rightarrow> real list \<Rightarrow> nat \<Rightarrow> buffers \<Rightarrow> buffers" where
  "update c1 c2V N b =
     (let IDX1 = [1..<N - 1];
          IDX2 = [2..<N];
          IDX3 = [0..<N - 2];
          r0 = psi_r b;
          i0 = psi_i b;
          i1 = i0[FU := setidx (i0 ! FU) IDX1
                 (vadd (getidx (i0 ! PA) IDX1)
                    (smul c1 (vadd (vsub (getidx (r0 ! PR) IDX2) (smul 2 (getidx (r0 ! PR) IDX1)))
                                   (getidx (r0 ! PR) IDX3))))];
          i2 = i1[FU := vsub (i1 ! FU) (vmul c2V (r0 ! PR))];
          r1 = r0[FU := setidx (r0 ! FU) IDX1
                 (vsub (getidx (r0 ! PA) IDX1)
                    (smul c1 (vadd (vsub (getidx (i2 ! PR) IDX2) (smul 2 (getidx (i2 ! PR) IDX1)))
                                   (getidx (i2 ! PR) IDX3))))];
          r2 = r1[FU := vadd (r1 ! FU) (vmul c2V (i2 ! PR))];
          r3 = r2[PA := r2 ! PR];
          r4 = r3[PR := r3 ! FU];
          i3 = i2[PA := i2 ! PR];
          i4 = i3[PR := i3 ! FU]
      in \<lparr>psi_r = r4, psi_i = i4\<rparr>)"

text \<open>
  A snapshot as the consumer sees it when it is yielded. (\<open>real\<close> and \<open>imag\<close> are views of
  the present rows, which later steps overwrite; \<open>prob\<close> is a fresh array.)
\<close>

record snapshot =
  snap_prob :: "real list"
  snap_real :: "real list"
  snap_imag :: "real list"

definition snapshot_of :: "buffers \<Rightarrow> snapshot" where
  "snapshot_of b =
     \<lparr>snap_prob = vadd (map (\<lambda>v. v\<^sup>2) (psi_r b ! PR)) (map (\<lambda>v. v\<^sup>2) (psi_i b ! PR)),
      snap_real = psi_r b ! PR,
      snap_imag = psi_i b ! PR\<rparr>"

text \<open>
  The loop \<open>for t in range(self.T+1)\<close> over the remaining values of \<open>t\<close>: update, rotate,
  then \<open>if t % deltaT == 0: yield\<close>. The result is the sequence of snapshots the generator
  yields when it is consumed to its end; \<open>t % 0\<close> raises.
\<close>

fun simulate_loop ::
  "real \<Rightarrow> real list \<Rightarrow> nat \<Rightarrow> int \<Rightarrow> nat list \<Rightarrow> buffers \<Rightarrow> error + snapshot list" where
  "simulate_loop c1 c2V N deltaT [] b = Inr []"
| "simulate_loop c1 c2V N deltaT (t # ts) b =
     (let b' = update c1 c2V N b
      in if deltaT = 0 then Inl ZeroDivisionError
         else if int t mod deltaT = 0
              then bind_err (simulate_loop c1 c2V N deltaT ts b') (\<lambda>rest. Inr (snapshot_of b' # rest))
              else simulate_loop c1 c2V N deltaT ts b')"

text \<open>
  The whole of \<open>simulate(self, deltaT)\<close>. The constant \<open>c1\<close> divides by
  \<open>self.p.m * self.dx**2\<close>, Python numbers again: a zero divisor raises (this is reached
  only with a supplied \<open>dt\<close>, the derivation of \<open>dt\<close> having raised before otherwise).
\<close>

definition simulate :: "Simulation \<Rightarrow> int \<Rightarrow> error + snapshot list" where
  "simulate self deltaT =
     (let N = sim_N self;
          hbar = (1::real)
      in bind_err (derive_dt self) (\<lambda>dt.
         bind_err (initialise self) (\<lambda>(b0, psi_p).
         if m (sim_p self) * (sim_dx self)\<^sup>2 = 0 then Inl ZeroDivisionError
         else
           let c1 = hbar * dt / (m (sim_p self) * (sim_dx self)\<^sup>2);
               c2 = 2 * dt / hbar;
               c2V = smul c2 (sim_V self)
           in simulate_loop c1 c2V N deltaT [0..<nat (sim_T self + 1)] b0)))"

subsection \<open>The state of the loop after a number of passes\<close>

text \<open>
  \<open>run c1 c2V N t b\<close> is the pair of buffers after \<open>t\<close> passes through the loop body,
  started from \<open>b\<close>. \<open>shape_ok N b\<close> says that both buffers are \<open>3 \<times> N\<close>, as
  \<open>np.zeros((3,N))\<close> makes them.
\<close>

fun run :: "real \<Rightarrow> real list \<Rightarrow> nat \<Rightarrow> nat \<Rightarrow> buffers \<Rightarrow> buffers" where
  "run c1 c2V N 0 b = b"
| "run c1 c2V N (Suc t) b = update c1 c2V N (run c1 c2V N t b)"

definition shape_ok :: "nat \<Rightarrow> buffers \<Rightarrow> bool" where
  "shape_ok N b \<longleftrightarrow> map length (psi_r b) = [N, N, N] \<and> map length (psi_i b) = [N, N, N]"

subsection \<open>A small run: three grid points, a free particle centred on the middle one\<close>

text \<open>
  \<open>Particle(x0=1, sigma=1, k0=0, m=1)\<close> and
  \<open>Simulation(particle, [NullPotential()], N=3, dx=1, T=0)\<close>: the grid is \<open>[0, 1, 2]\<close>,
  the potential field is zero, the derived time step is \<open>1/2\<close>.
\<close>

definition particle_ex :: Particle where
  "particle_ex = \<lparr>x0 = 1, m = 1, sigma = 1, k0 = 0, E = 1 / 4\<rparr>"

definition sim_ex :: Simulation where
  "sim_ex = \<lparr>sim_N = 3, sim_T = 0, sim_dx = 1, sim_dt = None, sim_scale = [0, 1, 2],
             sim_potentials = [Null], sim_V = [0, 0, 0], sim_p = particle_ex\<rparr>"

text \<open>The envelope \<open>exp(-1/2)\<close> at the two outer grid points, and \<open>sqrt(P)\<close> of this run.\<close>

definition a_ex :: real where
  "a_ex = exp (- (1 / 2))"

definition nrm_ex :: real where
  "nrm_ex = sqrt (2 * a_ex\<^sup>2 + 1)"

text \<open>The Python float \<open>0.1\<close>: the double nearest to one tenth.\<close>

definition dx_tenth :: real where
  "dx_tenth = 3602879701896397 / 36028797018963968"

section \<open>Properties of particle.py\<close>

text \<open>
  Claim C6 says that \<open>Particle(x0, sigma)\<close>, with the wavenumber left unspecified, succeeds
  with \<open>k0 = pi/20\<close> and the energy computed from that default. The constructor stores the
  default in \<open>self.k0\<close> but squares the parameter \<open>k0\<close>, which is still \<open>None\<close>: for every
  \<open>x0\<close> and \<open>sigma\<close> the construction raises \<open>TypeError\<close> and no particle exists.
\<close>

theorem C6_default_k0_raises:
  "Particle_default_k0 x0' sigma' = Inl TypeError"
  by (simp add: Particle_default_k0_def Particle_init_def)

section \<open>Properties of potentials.py\<close>

lemma py_min_Min: "x \<noteq> [] \<Longrightarrow> py_min x = Inr (Min (set x))"
proof (cases x)
  case Nil
  assume "x \<noteq> []"
  with Nil show ?thesis by simp
next
  case (Cons y ys)
  then show ?thesis using Min.set_eq_fold[of y ys] by (simp add: py_min_def)
qed

lemma py_max_Max: "x \<noteq> [] \<Longrightarrow> py_max x = Inr (Max (set x))"
proof (cases x)
  case Nil
  assume "x \<noteq> []"
  with Nil show ?thesis by simp
next
  case (Cons y ys)
  then show ?thesis using Max.set_eq_fold[of y ys] by (simp add: py_max_def)
qed

lemma where_first_Some:
  "True \<in> set bs \<Longrightarrow> \<exists>i. where_first bs = Some i \<and> i < length bs \<and> bs ! i \<and> (\<forall>j<i. \<not> bs ! j)"
proof (induction bs)
  case Nil
  then show ?case by simp
next
  case (Cons b bs)
  show ?case
  proof (cases b)
    case True
    then show ?thesis by simp
  next
    case False
    with Cons.prems have "True \<in> set bs" by auto
    from Cons.IH[OF this] obtain i where
      i: "where_first bs = Some i" "i < length bs" "bs ! i" "\<forall>j<i. \<not> bs ! j" by blast
    have "\<forall>j<Suc i. \<not> (b # bs) ! j"
    proof (intro allI impI)
      fix j assume "j < Suc i"
      then show "\<not> (b # bs) ! j" using False i(4) by (cases j) auto
    qed
    with i False show ?thesis by simp
  qed
qed

lemma PointPotential_farr_ok:
  assumes "x \<noteq> []"
  shows "\<exists>w r. PointPotential_farr self x = Inr (w, r) \<and> length r = length x"
proof (cases "Min (set x) > pp_pos self \<or> Max (set x) < pp_pos self")
  case True
  then show ?thesis using assms
    by (simp add: PointPotential_farr_def py_min_Min py_max_Max bind_err_def)
next
  case False
  let ?shiftx = "map (\<lambda>xk. \<bar>xk - pp_pos self\<bar>) x"
  have ne: "?shiftx \<noteq> []" using assms by simp
  have "Min (set ?shiftx) \<in> set ?shiftx" using ne by (intro Min_in) simp_all
  then have "True \<in> (\<lambda>s. s = Min (set ?shiftx)) ` set ?shiftx" by (rule rev_image_eqI) simp
  then have "True \<in> set (map (\<lambda>s. s = Min (set ?shiftx)) ?shiftx)" by (simp only: set_map)
  from where_first_Some[OF this] obtain idx where
    "where_first (map (\<lambda>s. s = Min (set ?shiftx)) ?shiftx) = Some idx" by blast
  then show ?thesis using False assms
    by (simp add: PointPotential_farr_def py_min_Min[OF assms] py_max_Max[OF assms]
        py_min_Min[OF ne] bind_err_def Let_def)
qed

text \<open>
  On a grid that holds the position exactly, a PointPotential with a non-negative position
  and tolerance puts its amplitude at the first such grid index and nowhere else, without
  a warning.
\<close>

lemma PointPotential_aligned_nonneg:
  assumes al: "pp_pos self \<in> set x" and p: "0 \<le> pp_pos self" and e: "0 \<le> pp_epsilon self"
  shows "\<exists>idx<length x. x ! idx = pp_pos self \<and> (\<forall>j<idx. x ! j \<noteq> pp_pos self) \<and>
           PointPotential_farr self x = Inr ([], (replicate (length x) 0)[idx := pp_A self])"
proof -
  let ?shiftx = "map (\<lambda>xk. \<bar>xk - pp_pos self\<bar>) x"
  have ne: "x \<noteq> []" using al by auto
  have ne': "?shiftx \<noteq> []" using ne by simp
  have "Min (set x) \<le> pp_pos self" using al by (intro Min_le) simp_all
  moreover have "pp_pos self \<le> Max (set x)" using al by (intro Max_ge) simp_all
  ultimately have inside: "\<not> (Min (set x) > pp_pos self \<or> Max (set x) < pp_pos self)"
    by linarith
  have "0 \<in> set ?shiftx" using al by (auto simp: image_iff)
  moreover have "\<forall>s\<in>set ?shiftx. 0 \<le> s" by auto
  ultimately have ms: "Min (set ?shiftx) = 0" by (intro Min_eqI) auto
  have "True \<in> (\<lambda>s. s = 0) ` set ?shiftx" using \<open>0 \<in> set ?shiftx\<close> by (rule rev_image_eqI) simp
  then have "True \<in> set (map (\<lambda>s. s = 0) ?shiftx)" by (simp only: set_map)
  from where_first_Some[OF this] obtain idx where
    w: "where_first (map (\<lambda>s. s = 0) ?shiftx) = Some idx" and l: "idx < length x"
    and h: "map (\<lambda>s. s = 0) ?shiftx ! idx" and f: "\<forall>j<idx. \<not> map (\<lambda>s. s = 0) ?shiftx ! j"
    by auto
  from h l have xi: "x ! idx = pp_pos self" by simp
  from f l have fj: "\<forall>j<idx. x ! j \<noteq> pp_pos self" by auto
  have tol: "\<not> \<bar>x ! idx\<bar> > \<bar>pp_pos self + pp_epsilon self\<bar>" using xi p e by simp
  have "PointPotential_farr self x = Inr ([], (replicate (length x) 0)[idx := pp_A self])"
    using inside tol w
    by (simp add: PointPotential_farr_def py_min_Min[OF ne] py_max_Max[OF ne] py_min_Min[OF ne']
        ms[simplified] bind_err_def Let_def)
  with l xi fj show ?thesis by blast
qed

text \<open>
  Claim C5, as the code has it: for every StepPotential and every array of coordinates, the
  array evaluation returns an array of the same length that holds the amplitude \<open>A\<close> at
  every coordinate \<open>x \<ge> pos\<close> and \<open>0\<close> at every coordinate \<open>x < pos\<close>. (This is the
  convention of the class docstring; the claim states the opposite one.)
\<close>

theorem C5_step_farr:
  "\<exists>res. StepPotential_f self (Arr x) = Arr res \<and> length res = length x \<and>
     (\<forall>k<length x. (x ! k \<ge> sp_pos self \<longrightarrow> res ! k = sp_A self)
                  \<and> (x ! k < sp_pos self \<longrightarrow> res ! k = 0))"
  by (simp add: StepPotential_f_def StepPotential_farr_def mask_assign_def)

theorem C5_step_farr_witness:
  "(1::real) \<ge> sp_pos (StepPotential_init 7 (Some 0)) \<and>
   (-1::real) < sp_pos (StepPotential_init 7 (Some 0)) \<and>
   (\<exists>res. StepPotential_f (StepPotential_init 7 (Some 0)) (Arr [-1, 1]) = Arr res \<and>
      length res = 2 \<and> res ! 1 = 7 \<and> res ! 0 = 0)"
proof -
  let ?S = "StepPotential_init 7 (Some 0)"
  have p: "sp_pos ?S = 0" "sp_A ?S = 7" by (simp_all add: StepPotential_init_def)
  from C5_step_farr[of ?S "[-1, 1]"] obtain res where
    r: "StepPotential_f ?S (Arr [-1, 1]) = Arr res" "length res = length [-1, 1::real]"
    and q: "\<forall>k<length [-1, 1::real]. ([-1, 1::real] ! k \<ge> sp_pos ?S \<longrightarrow> res ! k = sp_A ?S)
            \<and> ([-1, 1::real] ! k < sp_pos ?S \<longrightarrow> res ! k = 0)"
    by blast
  from q have "res ! 1 = 7" using p by (auto dest!: spec[of _ 1])
  moreover from q have "res ! 0 = 0" using p by (auto dest!: spec[of _ 0])
  ultimately show ?thesis using r p by auto
qed

text \<open>
  Claim C5 as stated fails: \<open>StepPotential(7, 0)\<close> on the coordinates \<open>[-1, 1]\<close> gives
  \<open>[0, 7]\<close>, so the coordinate \<open>-1 < pos\<close> holds \<open>0\<close> and not the amplitude.
\<close>

theorem C5_counterexample:
  "(-1::real) < sp_pos (StepPotential_init 7 (Some 0)) \<and>
   StepPotential_f (StepPotential_init 7 (Some 0)) (Arr [-1, 1]) = Arr [0, 7] \<and>
   [0, 7::real] ! 0 \<noteq> sp_A (StepPotential_init 7 (Some 0))"
  by (simp add: StepPotential_f_def StepPotential_farr_def StepPotential_init_def mask_assign_def)

text \<open>
  Claim C8 says that a PointPotential with the default tolerance whose position is a grid
  coordinate gives the amplitude at exactly one index without a diagnostic, also on grids
  with negative coordinates. The tolerance test compares \<open>abs(x[idx])\<close> with
  \<open>abs(self.pos + self.epsilon)\<close> instead of the distance to \<open>pos\<close> with the tolerance, so
  a negative position fails it: \<open>PointPotential(1, -1)\<close> on \<open>[-2, -1, 0]\<close> warns that the
  closest coordinate \<open>-1\<close> is outside \<open>-1 +/- 0.0001\<close> and returns zeros.
\<close>

theorem C8_point_negative_pos:
  "PointPotential_f (PointPotential_init 1 (Some (- 1)) None) (Arr [- 2, - 1, 0]) =
     Inr ([ClosestOutsideTolerance (- 1) (- 1) (1 / 10000)], Arr [0, 0, 0])"
  by (simp add: PointPotential_f_def PointPotential_farr_def PointPotential_init_def
      py_min_def py_max_def bind_err_def)

text \<open>
  Claim C9: for every PointPotential and every (non-empty) coordinate array whose minimum
  exceeds \<open>pos\<close> or whose maximum is below \<open>pos\<close>, array evaluation does not raise: it issues
  the warning that the scale does not contain the potential and returns the all-zero array
  of the same length.
\<close>

theorem C9_point_outside_range:
  assumes "x \<noteq> []" and "Min (set x) > pp_pos self \<or> Max (set x) < pp_pos self"
  shows "PointPotential_f self (Arr x) =
           Inr ([ScaleDoesNotContain], Arr (replicate (length x) 0))"
  using assms
  by (auto simp add: PointPotential_f_def PointPotential_farr_def py_min_Min py_max_Max
      bind_err_def)

theorem C9_point_outside_range_witness:
  "[5, 6, 7] \<noteq> ([]::real list) \<and>
   Min (set [5, 6, 7]) > pp_pos (PointPotential_init 2 (Some 3) None) \<and>
   PointPotential_f (PointPotential_init 2 (Some 3) None) (Arr [5, 6, 7]) =
     Inr ([ScaleDoesNotContain], Arr [0, 0, 0])"
proof -
  have h1: "[5, 6, 7] \<noteq> ([]::real list)" by simp
  have h2: "Min (set [5, 6, 7]) > pp_pos (PointPotential_init 2 (Some 3) None)"
    by (simp add: PointPotential_init_def)
  from C9_point_outside_range[OF h1 disjI1[OF h2]] h1 h2 show ?thesis
    by (simp add: numeral_3_eq_3)
qed

text \<open>
  Claim C10: for every PointPotential instance and every scalar argument, the scalar
  evaluation path raises \<open>AttributeError\<close>: \<open>_fx\<close> reads \<open>self.tolerance\<close>, an attribute the
  constructor never assigns (it stores the tolerance as \<open>epsilon\<close>).
\<close>

theorem C10_point_scalar_raises:
  "PointPotential_f (PointPotential_init A pos tolerance) (Scalar x) = Inl AttributeError"
  by (simp add: PointPotential_f_def PointPotential_fx_def PointPotential_getattr_def
      PointPotential_init_def bind_err_def)

section \<open>Properties of simulation.py\<close>

subsection \<open>Double arithmetic\<close>

lemma rne_of_int: "rne (of_int k) = k"
  by (simp add: rne_def)

lemma floor_log2: 
  assumes "2 powi e \<le> \<bar>x\<bar>" "\<bar>x\<bar> < 2 powi (e + 1)"
  shows "\<lfloor>log 2 \<bar>x\<bar>\<rfloor> = e"
proof -
  have "(0::real) < 2 powi e" by simp
  with assms(1) have p: "0 < \<bar>x\<bar>" by linarith
  have a: "(2::real) powr real_of_int e = 2 powi e" by (rule powr_real_of_int') simp_all
  have b: "(2::real) powr (real_of_int e + 1) = 2 powi (e + 1)"
    using powr_real_of_int'[of "2::real" "e + 1"] by simp
  show ?thesis
    using assms by (simp add: floor_log_eq_powr_iff[OF p] a b)
qed

lemma fl_eval:
  assumes "2 powi e \<le> \<bar>x\<bar>" "\<bar>x\<bar> < 2 powi (e + 1)"
  shows "fl x = of_int (rne (x / 2 powi (max e (- 1022) - 52))) * 2 powi (max e (- 1022) - 52)"
proof -
  have "(0::real) < 2 powi e" by simp
  with assms(1) have "0 < \<bar>x\<bar>" by linarith
  then have "x \<noteq> 0" by simp
  then show ?thesis by (simp add: fl_def floor_log2[OF assms] Let_def)
qed

lemma fl_exact:
  assumes "2 powi e \<le> \<bar>x\<bar>" "\<bar>x\<bar> < 2 powi (e + 1)"
    and "x = of_int k * 2 powi (max e (- 1022) - 52)"
  shows "fl x = x"
proof -
  have u: "(2::real) powi (max e (- 1022) - 52) \<noteq> 0" by simp
  have q: "x / 2 powi (max e (- 1022) - 52) = of_int k"
    using assms(3) u by (simp add: field_simps)
  have "fl x = of_int k * 2 powi (max e (- 1022) - 52)"
    by (simp only: fl_eval[OF assms(1,2)] q rne_of_int)
  then show ?thesis by (simp only: assms(3)[symmetric])
qed

lemma fl_1: "fl 1 = 1"
  by (rule fl_exact[of 0 _ "2 ^ 52"]) (simp_all add: power_int_minus)

lemma fl_2: "fl 2 = 2"
  by (rule fl_exact[of 1 _ "2 ^ 52"]) (simp_all add: power_int_minus)

lemma fl_3: "fl 3 = 3"
  by (rule fl_exact[of 1 _ "3 * 2 ^ 51"]) (simp_all add: power_int_minus)

lemma fl_of_int:
  assumes "\<bar>n\<bar> < 2 ^ 53"
  shows "fl (of_int n) = of_int n"
proof (cases "n = 0")
  case True
  then show ?thesis by (simp add: fl_def)
next
  case False
  define x :: real where "x = of_int n"
  define e where "e = \<lfloor>log 2 \<bar>x\<bar>\<rfloor>"
  have x1: "1 \<le> \<bar>x\<bar>" using False by (simp add: x_def)
  then have xp: "0 < \<bar>x\<bar>" by linarith
  have b: "2 powr real_of_int e \<le> \<bar>x\<bar>" "\<bar>x\<bar> < 2 powr (real_of_int e + 1)"
    using floor_log_eq_powr_iff[OF xp, of 2 e] by (simp_all add: e_def)
  have pe: "(2::real) powr real_of_int e = 2 powi e" by (rule powr_real_of_int') simp_all
  have pe1: "(2::real) powr (real_of_int e + 1) = 2 powi (e + 1)"
    using powr_real_of_int'[of "2::real" "e + 1"] by simp
  from b have b': "2 powi e \<le> \<bar>x\<bar>" "\<bar>x\<bar> < 2 powi (e + 1)" by (simp_all only: pe pe1)
  have e0: "0 \<le> e" using x1 by (simp add: e_def)
  have "\<bar>x\<bar> < 2 ^ 53" using assms by (simp add: x_def)
  then have "(2::real) powi e < 2 powi 53" using b'(1) by simp
  then have "e < 53" by (rule power_int_le_imp_less_exp[rotated]) simp_all
  then have e52: "e \<le> 52" by simp
  have m: "max e (- 1022) = e" using e0 by simp
  have "(2::real) powi (52 - e) * 2 powi (e - 52) = 1"
    by (simp flip: power_int_add)
  moreover have "(2::real) powi (52 - e) = of_int (2 ^ nat (52 - e))"
    using e52 by (simp add: power_int_def)
  ultimately have "x = of_int (n * 2 ^ nat (52 - e)) * 2 powi (max e (- 1022) - 52)"
    by (simp add: m x_def mult.assoc)
  from fl_exact[OF b' this] show ?thesis by (simp add: x_def)
qed

text \<open>
  The products and quotients behind the grid of \<open>N = 3\<close>, \<open>dx = 0.1\<close>: \<open>3 * 0.1\<close> is
  \<open>0.30000000000000004\<close> in doubles, and \<open>0.30000000000000004 / 0.1\<close> is
  \<open>3.0000000000000004\<close>, whose ceiling is \<open>4\<close>.
\<close>

lemma fl_tenth: "fl (1 / 10) = dx_tenth"
proof -
  have "fl (1 / 10) = of_int (rne ((1 / 10) / 2 powi (max (- 4) (- 1022) - 52))) * 2 powi (max (- 4) (- 1022) - 52)"
    by (rule fl_eval) (simp_all add: power_int_minus)
  also have "\<dots> = dx_tenth"
    by (simp add: power_int_minus rne_def dx_tenth_def)
  finally show ?thesis .
qed

lemma fl_3_tenth: "fl (3 * dx_tenth) = 1351079888211149 / 4503599627370496"
proof -
  have "fl (3 * dx_tenth) = of_int (rne ((3 * dx_tenth) / 2 powi (max (- 2) (- 1022) - 52))) * 2 powi (max (- 2) (- 1022) - 52)"
    by (rule fl_eval) (simp_all add: power_int_minus dx_tenth_def)
  also have "\<dots> = 1351079888211149 / 4503599627370496"
    by (simp add: power_int_minus rne_def dx_tenth_def)
  finally show ?thesis .
qed

lemma fl_3_tenth_idem: "fl (1351079888211149 / 4503599627370496) = 1351079888211149 / 4503599627370496"
  by (rule fl_exact[of "- 2" _ 5404319552844596]) (simp_all add: power_int_minus)

lemma fl_quot: "fl ((1351079888211149 / 4503599627370496) / dx_tenth) = 6755399441055745 / 2251799813685248"
proof -
  let ?q = "(1351079888211149 / 4503599627370496) / dx_tenth"
  have "fl ?q = of_int (rne (?q / 2 powi (max 1 (- 1022) - 52))) * 2 powi (max 1 (- 1022) - 52)"
    by (rule fl_eval) (simp_all add: power_int_minus dx_tenth_def)
  also have "\<dots> = 6755399441055745 / 2251799813685248"
    by (simp add: power_int_minus rne_def dx_tenth_def)
  finally show ?thesis .
qed

lemma ceil_quot: "\<lceil>6755399441055745 / 2251799813685248 :: real\<rceil> = 4"
  by (simp add: ceiling_eq_iff)

subsection \<open>Index arrays, buffer shapes and the loop\<close>

lemma setidx_Nil: "setidx a [] vals = a"
  by (simp add: setidx_def)

lemma setidx_Nil2: "setidx a idx [] = a"
  by (simp add: setidx_def)

lemma setidx_Cons: "setidx a (i # idx) (v # vals) = setidx (a[i := v]) idx vals"
  by (simp add: setidx_def)

lemma length_setidx: "length (setidx a idx vals) = length a"
proof (induction idx arbitrary: a vals)
  case Nil
  show ?case by (simp add: setidx_Nil)
next
  case (Cons i idx)
  show ?case
  proof (cases vals)
    case Nil
    then show ?thesis by (simp add: setidx_Nil2)
  next
    case (Cons v vs)
    then show ?thesis using Cons.IH[of "a[i := v]" vs] by (simp add: setidx_Cons)
  qed
qed

lemma nth_setidx_other: "k \<notin> set idx \<Longrightarrow> setidx a idx vals ! k = a ! k"
proof (induction idx arbitrary: a vals)
  case Nil
  show ?case by (simp add: setidx_Nil)
next
  case (Cons i idx)
  then have ki: "i \<noteq> k" and kidx: "k \<notin> set idx" by auto
  show ?case
  proof (cases vals)
    case Nil
    then show ?thesis by (simp add: setidx_Nil2)
  next
    case (Cons v vs)
    then show ?thesis using Cons.IH[OF kidx, of "a[i := v]" vs] ki by (simp add: setidx_Cons)
  qed
qed

lemma shape_rows:
  "shape_ok N b \<Longrightarrow> \<exists>ra rb rc ia ib ic. psi_r b = [ra, rb, rc] \<and> psi_i b = [ia, ib, ic]
     \<and> length ra = N \<and> length rb = N \<and> length rc = N \<and> length ia = N \<and> length ib = N \<and> length ic = N"
  unfolding shape_ok_def
  by (auto simp: map_eq_Cons_conv)

lemma update_rows:
  assumes "psi_r b = [ra, rb, rc]" "psi_i b = [ia, ib, ic]"
  shows "update c1 c2V N b =
    (let fi = vsub (setidx ic [1..<N - 1]
                 (vadd (getidx ia [1..<N - 1])
                    (smul c1 (vadd (vsub (getidx rb [2..<N]) (smul 2 (getidx rb [1..<N - 1])))
                                   (getidx rb [0..<N - 2]))))) (vmul c2V rb);
         fr = vadd (setidx rc [1..<N - 1]
                 (vsub (getidx ra [1..<N - 1])
                    (smul c1 (vadd (vsub (getidx ib [2..<N]) (smul 2 (getidx ib [1..<N - 1])))
                                   (getidx ib [0..<N - 2]))))) (vmul c2V ib)
     in \<lparr>psi_r = [rb, fr, fr], psi_i = [ib, fi, fi]\<rparr>)"
  using assms by (simp add: update_def PA_def PR_def FU_def Let_def)

lemma update_shape:
  assumes "shape_ok N b" "length c2V = N"
  shows "shape_ok N (update c1 c2V N b)"
proof -
  from shape_rows[OF assms(1)] obtain ra rb rc ia ib ic where
    r: "psi_r b = [ra, rb, rc]" "psi_i b = [ia, ib, ic]"
    and l: "length ra = N" "length rb = N" "length rc = N" "length ia = N" "length ib = N" "length ic = N"
    by blast
  show ?thesis
    using l assms(2)
    by (simp add: update_rows[OF r] shape_ok_def Let_def vadd_def vsub_def vmul_def length_setidx)
qed

lemma update_boundary:
  assumes "shape_ok N b" "length c2V = N" "k < N" "k = 0 \<or> k = N - 1"
  shows "psi_r (update c1 c2V N b) ! PR ! k = psi_r b ! FU ! k + c2V ! k * (psi_i b ! PR ! k)"
    and "psi_i (update c1 c2V N b) ! PR ! k = psi_i b ! FU ! k - c2V ! k * (psi_r b ! PR ! k)"
    and "psi_r (update c1 c2V N b) ! FU = psi_r (update c1 c2V N b) ! PR"
    and "psi_i (update c1 c2V N b) ! FU = psi_i (update c1 c2V N b) ! PR"
    and "psi_r (update c1 c2V N b) ! PA = psi_r b ! PR"
    and "psi_i (update c1 c2V N b) ! PA = psi_i b ! PR"
proof -
  from shape_rows[OF assms(1)] obtain ra rb rc ia ib ic where
    r: "psi_r b = [ra, rb, rc]" "psi_i b = [ia, ib, ic]"
    and l: "length ra = N" "length rb = N" "length rc = N" "length ia = N" "length ib = N" "length ic = N"
    by blast
  have nk: "k \<notin> set [1..<N - 1]" using assms(3,4) by auto
  show "psi_r (update c1 c2V N b) ! PR ! k = psi_r b ! FU ! k + c2V ! k * (psi_i b ! PR ! k)"
    using l assms(2,3) nk
    by (simp add: update_rows[OF r] r Let_def PR_def FU_def vadd_def vmul_def length_setidx nth_setidx_other)
  show "psi_i (update c1 c2V N b) ! PR ! k = psi_i b ! FU ! k - c2V ! k * (psi_r b ! PR ! k)"
    using l assms(2,3) nk
    by (simp add: update_rows[OF r] r Let_def PR_def FU_def vsub_def vmul_def length_setidx nth_setidx_other)
  show "psi_r (update c1 c2V N b) ! FU = psi_r (update c1 c2V N b) ! PR"
    by (simp add: update_rows[OF r] Let_def PR_def FU_def)
  show "psi_i (update c1 c2V N b) ! FU = psi_i (update c1 c2V N b) ! PR"
    by (simp add: update_rows[OF r] Let_def PR_def FU_def)
  show "psi_r (update c1 c2V N b) ! PA = psi_r b ! PR"
    by (simp add: update_rows[OF r] r Let_def PR_def PA_def)
  show "psi_i (update c1 c2V N b) ! PA = psi_i b ! PR"
    by (simp add: update_rows[OF r] r Let_def PR_def PA_def)
qed

lemma run_shape: "shape_ok N b \<Longrightarrow> length c2V = N \<Longrightarrow> shape_ok N (run c1 c2V N t b)"
  by (induction t) (simp_all add: update_shape)

lemma loop_general:
  assumes "deltaT \<noteq> 0"
  shows "simulate_loop c1 c2V N deltaT [k..<n] (run c1 c2V N k b0) =
     Inr (map (\<lambda>t. snapshot_of (run c1 c2V N (Suc t) b0)) (filter (\<lambda>t. int t mod deltaT = 0) [k..<n]))"
proof (induction "n - k" arbitrary: k)
  case 0
  then show ?case by simp
next
  case (Suc d)
  then have kn: "k < n" and d: "d = n - Suc k" by auto
  have "[k..<n] = k # [Suc k..<n]" using kn by (simp add: upt_conv_Cons)
  then show ?case
    using Suc.hyps(1)[OF d] assms by (simp add: Let_def bind_err_def)
qed



lemma sum_list_sdiv: "sum_list (sdiv xs c) = sum_list xs / c"
  unfolding sdiv_def by (induction xs) (simp_all add: add_divide_distrib)

lemma initialise_ok:
  assumes "length (sim_scale self) = sim_N self"
  shows "initialise self =
     Inr (\<lparr>psi_r = [sdiv (Particle_real (sim_p self) (sim_scale self) 0)
                        (sqrt (sim_dx self * sum_list (Particle_prob (sim_p self) (sim_scale self) 0))),
                    sdiv (Particle_real (sim_p self) (sim_scale self) 0)
                        (sqrt (sim_dx self * sum_list (Particle_prob (sim_p self) (sim_scale self) 0))),
                    replicate (sim_N self) 0],
            psi_i = [sdiv (Particle_imag (sim_p self) (sim_scale self) 0)
                        (sqrt (sim_dx self * sum_list (Particle_prob (sim_p self) (sim_scale self) 0))),
                    sdiv (Particle_imag (sim_p self) (sim_scale self) 0)
                        (sqrt (sim_dx self * sum_list (Particle_prob (sim_p self) (sim_scale self) 0))),
                    replicate (sim_N self) 0]\<rparr>,
          sdiv (Particle_prob (sim_p self) (sim_scale self) 0)
               (sim_dx self * sum_list (Particle_prob (sim_p self) (sim_scale self) 0)))"
proof -
  have l: "length (Particle_real (sim_p self) (sim_scale self) 0) = sim_N self"
          "length (Particle_imag (sim_p self) (sim_scale self) 0) = sim_N self"
    using assms by (simp_all add: Particle_real_def Particle_imag_def)
  have z: "sdiv (replicate n 0) c = replicate n 0" for n c
    by (simp add: sdiv_def)
  show ?thesis
    by (simp add: initialise_def Let_def broadcast_to_def l bind_err_def PA_def PR_def FU_def
        numeral_3_eq_3 z)
qed

lemma initialise_shape:
  assumes "length (sim_scale self) = sim_N self" "initialise self = Inr (b0, pp)"
  shows "shape_ok (sim_N self) b0"
  using assms(2) unfolding initialise_ok[OF assms(1)]
  using assms(1) by (auto simp: shape_ok_def sdiv_def Particle_real_def Particle_imag_def)

lemma prob_normalised:
  "map2 (\<lambda>r i. r\<^sup>2 + i\<^sup>2) (sdiv (Particle_real p x t) c) (sdiv (Particle_imag p x t) c)
     = sdiv (Particle_prob p x t) (c\<^sup>2)"
  by (simp add: sdiv_def Particle_prob_def Particle_real_def Particle_imag_def map2_map_map
      power_divide add_divide_distrib)

lemma derive_dt_ok:
  assumes "m (sim_p self) * (sim_dx self)\<^sup>2 \<noteq> 0"
    and "sim_dt self \<noteq> None \<or> sim_V self \<noteq> []"
  shows "\<exists>dt. derive_dt self = Inr dt"
proof (cases "sim_dt self")
  case None
  with assms(2) have "sim_V self \<noteq> []" by simp
  then show ?thesis using None assms(1)
    by (simp add: derive_dt_def py_max_Max bind_err_def)
next
  case (Some d)
  then show ?thesis by (simp add: derive_dt_def)
qed

lemma simulate_run:
  assumes grid: "length (sim_scale self) = sim_N self"
    and dt: "derive_dt self = Inr dt"
    and mdx: "m (sim_p self) * (sim_dx self)\<^sup>2 \<noteq> 0"
    and d: "deltaT \<noteq> 0"
    and i: "initialise self = Inr (b0, pp)"
  shows "simulate self deltaT =
     Inr (map (\<lambda>t. snapshot_of (run (dt / (m (sim_p self) * (sim_dx self)\<^sup>2))
                                     (smul (2 * dt) (sim_V self)) (sim_N self) (Suc t) b0))
              (filter (\<lambda>t. int t mod deltaT = 0) [0..<nat (sim_T self + 1)]))"
proof -
  have "simulate self deltaT =
      simulate_loop (dt / (m (sim_p self) * (sim_dx self)\<^sup>2)) (smul (2 * dt) (sim_V self))
        (sim_N self) deltaT [0..<nat (sim_T self + 1)]
        (run (dt / (m (sim_p self) * (sim_dx self)\<^sup>2)) (smul (2 * dt) (sim_V self)) (sim_N self) 0 b0)"
    using mdx by (simp add: simulate_def dt i bind_err_def Let_def)
  then show ?thesis by (simp only: loop_general[OF d])
qed


lemma run_boundary_zero:
  assumes sh: "shape_ok N b0" and lc: "length c2V = N" and k: "k < N" "k = 0 \<or> k = N - 1"
    and z: "c2V ! k = 0" and f: "psi_r b0 ! FU ! k = 0" "psi_i b0 ! FU ! k = 0"
  shows "psi_r (run c1 c2V N t b0) ! FU ! k = 0 \<and> psi_i (run c1 c2V N t b0) ! FU ! k = 0"
proof (induction t)
  case 0
  show ?case using f by simp
next
  case (Suc t)
  let ?b = "run c1 c2V N t b0"
  have s: "shape_ok N ?b" by (rule run_shape[OF sh lc])
  have "psi_r (update c1 c2V N ?b) ! FU ! k = psi_r ?b ! FU ! k + c2V ! k * (psi_i ?b ! PR ! k)"
    by (simp only: update_boundary(3)[OF s lc k] update_boundary(1)[OF s lc k])
  moreover have "psi_i (update c1 c2V N ?b) ! FU ! k = psi_i ?b ! FU ! k - c2V ! k * (psi_r ?b ! PR ! k)"
    by (simp only: update_boundary(4)[OF s lc k] update_boundary(2)[OF s lc k])
  ultimately show ?case using Suc z by simp
qed

subsection \<open>The three-point run, evaluated\<close>

text \<open>
  The particle and the simulation of the small run are what the constructors build; after
  normalisation the present rows are \<open>[a, 1, a] / nrm\<close> (real) and zero (imaginary), with
  \<open>a = exp(-1/2)\<close> and \<open>nrm = sqrt(2 a\<^sup>2 + 1)\<close>. The first pass of the loop leaves
  \<open>[0, 1/nrm, 0]\<close> and \<open>[0, (a - 1)/nrm, 0]\<close> in the present rows.
\<close>

lemma particle_ex_init: "Particle_init 1 1 (Some 0) 1 = Inr particle_ex"
  by (simp add: Particle_init_def particle_ex_def)

lemma upt3: "[0..<3] = [0, 1, 2]"
  by (simp add: upt_rec)

lemma arange_ex: "arange 0 (fl (real_of_int 3 * 1)) 1 = Inr [0, 1, 2]"
  by (simp add: arange_def fl_3 upt3)

lemma sim_ex_init: "Simulation_init particle_ex [Null] 3 1 None (Some 0) None = Inr ([], sim_ex)"
  by (simp add: Simulation_init_def arange_ex[simplified] bind_err_def evalPotentials_def
      NullPotential_farr_def broadcast_to_def vadd_def sim_ex_def numeral_3_eq_3)

lemma real_ex: "Particle_real particle_ex [0, 1, 2] 0 = [a_ex, 1, a_ex]"
  by (simp add: Particle_real_def particle_ex_def a_ex_def)

lemma imag_ex: "Particle_imag particle_ex [0, 1, 2] 0 = [0, 0, 0]"
  by (simp add: Particle_imag_def particle_ex_def)

lemma prob_ex: "Particle_prob particle_ex [0, 1, 2] 0 = [a_ex\<^sup>2, 1, a_ex\<^sup>2]"
  by (simp add: Particle_prob_def real_ex imag_ex)

lemma mass_ex:
  "sim_dx sim_ex * sum_list (Particle_prob (sim_p sim_ex) (sim_scale sim_ex) 0) = 2 * a_ex\<^sup>2 + 1"
  by (simp add: sim_ex_def prob_ex)

lemma mass_ex_pos: "0 < 2 * a_ex\<^sup>2 + (1::real)"
  by (simp add: add_pos_nonneg add.commute)

lemma derive_dt_ex: "derive_dt sim_ex = Inr (1 / 2)"
  by (simp add: derive_dt_def sim_ex_def particle_ex_def py_max_def bind_err_def)

lemma initialise_ex:
  "initialise sim_ex =
     Inr (\<lparr>psi_r = [[a_ex / nrm_ex, 1 / nrm_ex, a_ex / nrm_ex],
                    [a_ex / nrm_ex, 1 / nrm_ex, a_ex / nrm_ex],
                    [0, 0, 0]],
            psi_i = [[0, 0, 0], [0, 0, 0], [0, 0, 0]]\<rparr>,
          [a_ex\<^sup>2 / (2 * a_ex\<^sup>2 + 1), 1 / (2 * a_ex\<^sup>2 + 1), a_ex\<^sup>2 / (2 * a_ex\<^sup>2 + 1)])"
proof -
  have g: "length (sim_scale sim_ex) = sim_N sim_ex" by (simp add: sim_ex_def)
  have s: "sim_p sim_ex = particle_ex" "sim_scale sim_ex = [0, 1, 2]" "sim_N sim_ex = 3"
    by (simp_all add: sim_ex_def)
  show ?thesis
    unfolding initialise_ok[OF g] mass_ex
    by (simp add: s real_ex imag_ex prob_ex sdiv_def nrm_ex_def numeral_3_eq_3)
qed

lemma update_ex:
  "update (1 / 2) [0, 0, 0] 3
     \<lparr>psi_r = [[a_ex / nrm_ex, 1 / nrm_ex, a_ex / nrm_ex],
               [a_ex / nrm_ex, 1 / nrm_ex, a_ex / nrm_ex],
               [0, 0, 0]],
       psi_i = [[0, 0, 0], [0, 0, 0], [0, 0, 0]]\<rparr> =
     \<lparr>psi_r = [[a_ex / nrm_ex, 1 / nrm_ex, a_ex / nrm_ex], [0, 1 / nrm_ex, 0], [0, 1 / nrm_ex, 0]],
       psi_i = [[0, 0, 0], [0, (a_ex - 1) / nrm_ex, 0], [0, (a_ex - 1) / nrm_ex, 0]]\<rparr>"
proof -
  have e: "(2 * a_ex / nrm_ex - 2 / nrm_ex) / 2 = (a_ex - 1) / nrm_ex"
    by (simp add: diff_divide_distrib)
  show ?thesis
    by (simp add: update_rows[of _ "[a_ex / nrm_ex, 1 / nrm_ex, a_ex / nrm_ex]"
          "[a_ex / nrm_ex, 1 / nrm_ex, a_ex / nrm_ex]" "[0, 0, 0]" "[0, 0, 0]" "[0, 0, 0]" "[0, 0, 0]"]
        Let_def getidx_def setidx_def vadd_def vsub_def vmul_def smul_def upt_rec e)
qed

lemma simulate_ex:
  "simulate sim_ex 1 =
     Inr [\<lparr>snap_prob = [0, (1 / nrm_ex)\<^sup>2 + ((a_ex - 1) / nrm_ex)\<^sup>2, 0],
           snap_real = [0, 1 / nrm_ex, 0],
           snap_imag = [0, (a_ex - 1) / nrm_ex, 0]\<rparr>]"
proof -
  have g: "length (sim_scale sim_ex) = sim_N sim_ex" by (simp add: sim_ex_def)
  have mdx: "m (sim_p sim_ex) * (sim_dx sim_ex)\<^sup>2 \<noteq> 0" by (simp add: sim_ex_def particle_ex_def)
  have d: "(1::int) \<noteq> 0" by simp
  have c: "1 / 2 / (m (sim_p sim_ex) * (sim_dx sim_ex)\<^sup>2) = 1 / 2"
    "smul (2 * (1 / 2)) (sim_V sim_ex) = [0, 0, 0]" "sim_N sim_ex = 3" "sim_T sim_ex = 0"
    by (simp_all add: sim_ex_def particle_ex_def smul_def)
  show ?thesis
    unfolding simulate_run[OF g derive_dt_ex mdx d initialise_ex] c
    by (simp add: update_ex snapshot_of_def PR_def vadd_def)
qed

lemma a_ex_ge: "1 / 2 \<le> a_ex"
  using exp_ge_add_one_self[of "- (1 / 2)"] by (simp add: a_ex_def)

lemma nrm_ex_sq: "nrm_ex\<^sup>2 = 2 * a_ex\<^sup>2 + 1"
  using mass_ex_pos by (simp add: nrm_ex_def)

lemma nrm_ex_pos: "0 < nrm_ex"
  using mass_ex_pos by (simp add: nrm_ex_def)

lemma first_prob_ex: "(1 / nrm_ex)\<^sup>2 + ((a_ex - 1) / nrm_ex)\<^sup>2 \<noteq> 1"
proof
  assume h: "(1 / nrm_ex)\<^sup>2 + ((a_ex - 1) / nrm_ex)\<^sup>2 = 1"
  have "(1 / nrm_ex)\<^sup>2 + ((a_ex - 1) / nrm_ex)\<^sup>2 = (1 + (a_ex - 1)\<^sup>2) / (2 * a_ex\<^sup>2 + 1)"
    by (simp add: power_divide nrm_ex_sq add_divide_distrib)
  with h have "(1 + (a_ex - 1)\<^sup>2) / (2 * a_ex\<^sup>2 + 1) = 1" by simp
  then have "1 + (a_ex - 1)\<^sup>2 = 2 * a_ex\<^sup>2 + 1"
    using mass_ex_pos by (simp add: divide_eq_eq)
  then have q: "a_ex\<^sup>2 + 2 * a_ex - 1 = 0" by (simp add: power2_diff)
  have "(1 / 2)\<^sup>2 \<le> a_ex\<^sup>2" using a_ex_ge by (intro power_mono) simp_all
  then have "1 / 4 \<le> a_ex\<^sup>2" by (simp add: power2_eq_square)
  with q a_ex_ge show False by linarith
qed

lemma sim_ex_grid: "length (sim_scale sim_ex) = sim_N sim_ex"
  by (simp add: sim_ex_def)

lemma sim_ex_field: "length (sim_V sim_ex) = sim_N sim_ex"
  by (simp add: sim_ex_def)

lemma sim_ex_sigma: "sigma (sim_p sim_ex) \<noteq> 0"
  by (simp add: sim_ex_def particle_ex_def)

lemma sim_ex_mass: "0 < sim_dx sim_ex * sum_list (Particle_prob (sim_p sim_ex) (sim_scale sim_ex) 0)"
  using mass_ex_pos by (simp only: mass_ex)

lemma sim_ex_mdx: "m (sim_p sim_ex) * (sim_dx sim_ex)\<^sup>2 \<noteq> 0"
  by (simp add: sim_ex_def particle_ex_def)

lemma sim_ex_den:
  "sim_dt sim_ex \<noteq> None \<or> 2 / (m (sim_p sim_ex) * (sim_dx sim_ex)\<^sup>2) + Max (set (sim_V sim_ex)) \<noteq> 0"
  by (simp add: sim_ex_def particle_ex_def)

subsection \<open>Claim C1: the first snapshot\<close>

text \<open>
  Claim C1, as the code has it: for every configuration with positive initial probability
  mass (a grid of \<open>N\<close> points, \<open>T \<ge> 0\<close>, \<open>deltaT \<noteq> 0\<close>, no division by zero in the constants),
  the first snapshot yielded by \<open>simulate\<close> is taken after the first pass through the update
  equations and the rotation: its \<open>real\<close> and \<open>imag\<close> are the present rows of the buffers
  obtained by one \<open>update\<close> of the normalised initial buffers, and its \<open>prob\<close> is the sum of
  their squares. (The loop body updates first and yields last, also for \<open>t = 0\<close>; the
  identity \<open>dx * sum = 1\<close> belongs to the normalised initial slice, claim C3.)
\<close>

theorem C1_first_snapshot_after_one_pass:
  assumes grid: "length (sim_scale self) = sim_N self"
    and field: "length (sim_V self) = sim_N self"
    and sig: "sigma (sim_p self) \<noteq> 0"
    and mass: "0 < sim_dx self * sum_list (Particle_prob (sim_p self) (sim_scale self) 0)"
    and mdx: "m (sim_p self) * (sim_dx self)\<^sup>2 \<noteq> 0"
    and den: "sim_dt self \<noteq> None \<or> 2 / (m (sim_p self) * (sim_dx self)\<^sup>2) + Max (set (sim_V self)) \<noteq> 0"
    and T: "0 \<le> sim_T self" and d: "deltaT \<noteq> 0"
  shows "\<exists>dt b0 psi_p rest. derive_dt self = Inr dt \<and> initialise self = Inr (b0, psi_p) \<and>
           simulate self deltaT =
             Inr (snapshot_of (update (dt / (m (sim_p self) * (sim_dx self)\<^sup>2))
                                      (smul (2 * dt) (sim_V self)) (sim_N self) b0) # rest)"
proof -
  have "sim_scale self \<noteq> []" using mass by (auto simp: Particle_prob_def Particle_real_def)
  with grid field have "sim_V self \<noteq> []" by auto
  then have "sim_dt self \<noteq> None \<or> sim_V self \<noteq> []" by simp
  from derive_dt_ok[OF mdx this] obtain dt where dt: "derive_dt self = Inr dt" by blast
  from initialise_ok[OF grid] obtain b0 pp where i: "initialise self = Inr (b0, pp)" by blast
  have u: "[0..<nat (sim_T self + 1)] = 0 # [1..<nat (sim_T self + 1)]"
    using T by (simp add: upt_conv_Cons)
  show ?thesis
    using dt i by (simp add: simulate_run[OF grid dt mdx d i] u)
qed

theorem C1_first_snapshot_after_one_pass_witness:
  "length (sim_scale sim_ex) = sim_N sim_ex \<and> length (sim_V sim_ex) = sim_N sim_ex \<and>
   sigma (sim_p sim_ex) \<noteq> 0 \<and>
   0 < sim_dx sim_ex * sum_list (Particle_prob (sim_p sim_ex) (sim_scale sim_ex) 0) \<and>
   m (sim_p sim_ex) * (sim_dx sim_ex)\<^sup>2 \<noteq> 0 \<and>
   2 / (m (sim_p sim_ex) * (sim_dx sim_ex)\<^sup>2) + Max (set (sim_V sim_ex)) \<noteq> 0 \<and>
   0 \<le> sim_T sim_ex \<and> (1::int) \<noteq> 0 \<and>
   (\<exists>dt b0 psi_p rest. derive_dt sim_ex = Inr dt \<and> initialise sim_ex = Inr (b0, psi_p) \<and>
      simulate sim_ex 1 =
        Inr (snapshot_of (update (dt / (m (sim_p sim_ex) * (sim_dx sim_ex)\<^sup>2))
                                 (smul (2 * dt) (sim_V sim_ex)) (sim_N sim_ex) b0) # rest))"
proof -
  have d2: "2 / (m (sim_p sim_ex) * (sim_dx sim_ex)\<^sup>2) + Max (set (sim_V sim_ex)) \<noteq> 0"
    by (simp add: sim_ex_def particle_ex_def)
  have T: "0 \<le> sim_T sim_ex" by (simp add: sim_ex_def)
  have d: "(1::int) \<noteq> 0" by simp
  from C1_first_snapshot_after_one_pass[OF sim_ex_grid sim_ex_field sim_ex_sigma sim_ex_mass sim_ex_mdx disjI2[OF d2] T d]
    sim_ex_grid sim_ex_field sim_ex_sigma sim_ex_mass sim_ex_mdx d2 T d
  show ?thesis by (intro conjI)
qed

text \<open>
  Claim C1 as stated fails on the three-point run: the initial mass is positive, the first
  snapshot is not the normalised initial slice \<open>[a, 1, a] / nrm\<close>, and \<open>dx\<close> times the sum
  of its probability array is \<open>(1 + (a - 1)\<^sup>2) / (2 a\<^sup>2 + 1)\<close>, which is not 1.
\<close>

theorem C1_counterexample:
  "0 < sim_dx sim_ex * sum_list (Particle_prob (sim_p sim_ex) (sim_scale sim_ex) 0) \<and>
   simulate sim_ex 1 =
     Inr [\<lparr>snap_prob = [0, (1 / nrm_ex)\<^sup>2 + ((a_ex - 1) / nrm_ex)\<^sup>2, 0],
           snap_real = [0, 1 / nrm_ex, 0],
           snap_imag = [0, (a_ex - 1) / nrm_ex, 0]\<rparr>] \<and>
   sim_dx sim_ex * sum_list [0, (1 / nrm_ex)\<^sup>2 + ((a_ex - 1) / nrm_ex)\<^sup>2, 0] \<noteq> 1"
  using first_prob_ex mass_ex_pos by (simp add: mass_ex simulate_ex) (simp add: sim_ex_def)

subsection \<open>Claim C2: the boundary indices\<close>

text \<open>
  Claim C2, as the code has it: for every simulation run (positive initial mass, a grid of
  \<open>N\<close> points, no division by zero in the constants), the states of the loop are
  \<open>run c1 c2V N t b0\<close> and the snapshots are taken from them; the stencil term \<open>c1 * (...)\<close>
  is never applied at the indices \<open>0\<close> and \<open>N - 1\<close>, but these indices are not held at their
  initialised values: each pass writes the future row into the present row, and at a
  boundary index the future row starts at \<open>0\<close> and changes only by the potential term
  (\<open>+ c2V[k] * imag_present[k]\<close> for the real part, \<open>- c2V[k] * real_present[k]\<close> for the
  imaginary part). Where the potential is \<open>0\<close> at a boundary index, the present real and
  imaginary values there are \<open>0\<close> after every pass.
\<close>

theorem C2_boundary_potential_term_only:
  assumes grid: "length (sim_scale self) = sim_N self"
    and field: "length (sim_V self) = sim_N self"
    and sig: "sigma (sim_p self) \<noteq> 0"
    and mass: "0 < sim_dx self * sum_list (Particle_prob (sim_p self) (sim_scale self) 0)"
    and mdx: "m (sim_p self) * (sim_dx self)\<^sup>2 \<noteq> 0"
    and den: "sim_dt self \<noteq> None \<or> 2 / (m (sim_p self) * (sim_dx self)\<^sup>2) + Max (set (sim_V self)) \<noteq> 0"
  shows "\<exists>dt b0 psi_p. derive_dt self = Inr dt \<and> initialise self = Inr (b0, psi_p) \<and>
    (let c1 = dt / (m (sim_p self) * (sim_dx self)\<^sup>2);
         c2V = smul (2 * dt) (sim_V self);
         N = sim_N self
     in (\<forall>deltaT. deltaT \<noteq> 0 \<longrightarrow>
           simulate self deltaT =
             Inr (map (\<lambda>t. snapshot_of (run c1 c2V N (Suc t) b0))
                      (filter (\<lambda>t. int t mod deltaT = 0) [0..<nat (sim_T self + 1)]))) \<and>
        (\<forall>k\<in>{0, N - 1}.
           psi_r b0 ! FU ! k = 0 \<and> psi_i b0 ! FU ! k = 0 \<and>
           (\<forall>t. psi_r (run c1 c2V N (Suc t) b0) ! PR ! k =
                   psi_r (run c1 c2V N t b0) ! FU ! k + c2V ! k * (psi_i (run c1 c2V N t b0) ! PR ! k) \<and>
                psi_i (run c1 c2V N (Suc t) b0) ! PR ! k =
                   psi_i (run c1 c2V N t b0) ! FU ! k - c2V ! k * (psi_r (run c1 c2V N t b0) ! PR ! k) \<and>
                psi_r (run c1 c2V N (Suc t) b0) ! FU = psi_r (run c1 c2V N (Suc t) b0) ! PR \<and>
                psi_i (run c1 c2V N (Suc t) b0) ! FU = psi_i (run c1 c2V N (Suc t) b0) ! PR \<and>
                (sim_V self ! k = 0 \<longrightarrow>
                   psi_r (run c1 c2V N (Suc t) b0) ! PR ! k = 0 \<and>
                   psi_i (run c1 c2V N (Suc t) b0) ! PR ! k = 0))))"
proof -
  have ne: "sim_scale self \<noteq> []" using mass by (auto simp: Particle_prob_def Particle_real_def)
  then have "0 < length (sim_scale self)" by simp
  then have N: "0 < sim_N self" by (simp only: grid)
  with field have "sim_dt self \<noteq> None \<or> sim_V self \<noteq> []" by auto
  from derive_dt_ok[OF mdx this] obtain dt where dt: "derive_dt self = Inr dt" by blast
  from initialise_ok[OF grid] obtain b0 pp where i: "initialise self = Inr (b0, pp)"
    and fr: "psi_r b0 ! FU = replicate (sim_N self) 0"
    and fi: "psi_i b0 ! FU = replicate (sim_N self) 0"
    by (simp add: FU_def)
  let ?c1 = "dt / (m (sim_p self) * (sim_dx self)\<^sup>2)"
  let ?c2V = "smul (2 * dt) (sim_V self)"
  let ?N = "sim_N self"
  have lc: "length ?c2V = ?N" using field by (simp add: smul_def)
  have sh0: "shape_ok ?N b0" by (rule initialise_shape[OF grid i])
  have sh: "shape_ok ?N (run ?c1 ?c2V ?N t b0)" for t by (rule run_shape[OF sh0 lc])
  have A: "\<forall>deltaT. deltaT \<noteq> 0 \<longrightarrow>
           simulate self deltaT =
             Inr (map (\<lambda>t. snapshot_of (run ?c1 ?c2V ?N (Suc t) b0))
                      (filter (\<lambda>t. int t mod deltaT = 0) [0..<nat (sim_T self + 1)]))"
    using simulate_run[OF grid dt mdx _ i] by blast
  have B: "psi_r b0 ! FU ! k = 0 \<and> psi_i b0 ! FU ! k = 0 \<and>
           (\<forall>t. psi_r (run ?c1 ?c2V ?N (Suc t) b0) ! PR ! k =
                   psi_r (run ?c1 ?c2V ?N t b0) ! FU ! k + ?c2V ! k * (psi_i (run ?c1 ?c2V ?N t b0) ! PR ! k) \<and>
                psi_i (run ?c1 ?c2V ?N (Suc t) b0) ! PR ! k =
                   psi_i (run ?c1 ?c2V ?N t b0) ! FU ! k - ?c2V ! k * (psi_r (run ?c1 ?c2V ?N t b0) ! PR ! k) \<and>
                psi_r (run ?c1 ?c2V ?N (Suc t) b0) ! FU = psi_r (run ?c1 ?c2V ?N (Suc t) b0) ! PR \<and>
                psi_i (run ?c1 ?c2V ?N (Suc t) b0) ! FU = psi_i (run ?c1 ?c2V ?N (Suc t) b0) ! PR \<and>
                (sim_V self ! k = 0 \<longrightarrow>
                   psi_r (run ?c1 ?c2V ?N (Suc t) b0) ! PR ! k = 0 \<and>
                   psi_i (run ?c1 ?c2V ?N (Suc t) b0) ! PR ! k = 0))"
    if kk: "k \<in> {0, ?N - 1}" for k
  proof -
    from kk N have k: "k < ?N" "k = 0 \<or> k = ?N - 1" by auto
    have f0: "psi_r b0 ! FU ! k = 0" "psi_i b0 ! FU ! k = 0" using k(1) by (simp_all add: fr fi)
    have step: "psi_r (run ?c1 ?c2V ?N (Suc t) b0) ! PR ! k =
                   psi_r (run ?c1 ?c2V ?N t b0) ! FU ! k + ?c2V ! k * (psi_i (run ?c1 ?c2V ?N t b0) ! PR ! k)"
               "psi_i (run ?c1 ?c2V ?N (Suc t) b0) ! PR ! k =
                   psi_i (run ?c1 ?c2V ?N t b0) ! FU ! k - ?c2V ! k * (psi_r (run ?c1 ?c2V ?N t b0) ! PR ! k)"
               "psi_r (run ?c1 ?c2V ?N (Suc t) b0) ! FU = psi_r (run ?c1 ?c2V ?N (Suc t) b0) ! PR"
               "psi_i (run ?c1 ?c2V ?N (Suc t) b0) ! FU = psi_i (run ?c1 ?c2V ?N (Suc t) b0) ! PR" for t
      using update_boundary(1-4)[OF sh lc k] by (simp_all only: run.simps)
    have zero: "psi_r (run ?c1 ?c2V ?N (Suc t) b0) ! PR ! k = 0 \<and>
                psi_i (run ?c1 ?c2V ?N (Suc t) b0) ! PR ! k = 0" if v: "sim_V self ! k = 0" for t
    proof -
      have z: "?c2V ! k = 0" using v k(1) field by (simp add: smul_def)
      from run_boundary_zero[OF sh0 lc k z f0, of ?c1 "Suc t"]
      show ?thesis by (simp only: step(3,4))
    qed
    show ?thesis using f0 step zero by blast
  qed
  show ?thesis
    using dt i A B by (simp only: Let_def) blast
qed

theorem C2_boundary_potential_term_only_witness:
  "length (sim_scale sim_ex) = sim_N sim_ex \<and> length (sim_V sim_ex) = sim_N sim_ex \<and>
   sigma (sim_p sim_ex) \<noteq> 0 \<and>
   0 < sim_dx sim_ex * sum_list (Particle_prob (sim_p sim_ex) (sim_scale sim_ex) 0) \<and>
   m (sim_p sim_ex) * (sim_dx sim_ex)\<^sup>2 \<noteq> 0 \<and>
   2 / (m (sim_p sim_ex) * (sim_dx sim_ex)\<^sup>2) + Max (set (sim_V sim_ex)) \<noteq> 0 \<and>
   (0::nat) \<in> {0, sim_N sim_ex - 1} \<and> sim_V sim_ex ! 0 = 0 \<and>
   (\<exists>dt b0 psi_p. derive_dt sim_ex = Inr dt \<and> initialise sim_ex = Inr (b0, psi_p) \<and>
      simulate sim_ex 1 =
        Inr (map (\<lambda>t. snapshot_of (run (dt / (m (sim_p sim_ex) * (sim_dx sim_ex)\<^sup>2))
                                        (smul (2 * dt) (sim_V sim_ex)) (sim_N sim_ex) (Suc t) b0))
                 (filter (\<lambda>t. int t mod 1 = 0) [0..<nat (sim_T sim_ex + 1)])) \<and>
      psi_r (run (dt / (m (sim_p sim_ex) * (sim_dx sim_ex)\<^sup>2))
                 (smul (2 * dt) (sim_V sim_ex)) (sim_N sim_ex) (Suc 0) b0) ! PR ! 0 = 0 \<and>
      psi_i (run (dt / (m (sim_p sim_ex) * (sim_dx sim_ex)\<^sup>2))
                 (smul (2 * dt) (sim_V sim_ex)) (sim_N sim_ex) (Suc 0) b0) ! PR ! 0 = 0)"
proof -
  have d2: "2 / (m (sim_p sim_ex) * (sim_dx sim_ex)\<^sup>2) + Max (set (sim_V sim_ex)) \<noteq> 0"
    by (simp add: sim_ex_def particle_ex_def)
  have k: "(0::nat) \<in> {0, sim_N sim_ex - 1}" by simp
  have v: "sim_V sim_ex ! 0 = 0" by (simp add: sim_ex_def)
  have d: "(1::int) \<noteq> 0" by simp
  from C2_boundary_potential_term_only[OF sim_ex_grid sim_ex_field sim_ex_sigma sim_ex_mass sim_ex_mdx disjI2[OF d2]]
  obtain dt b0 psi_p where
    a: "derive_dt sim_ex = Inr dt" "initialise sim_ex = Inr (b0, psi_p)"
    and s: "\<forall>deltaT. deltaT \<noteq> 0 \<longrightarrow>
           simulate sim_ex deltaT =
             Inr (map (\<lambda>t. snapshot_of (run (dt / (m (sim_p sim_ex) * (sim_dx sim_ex)\<^sup>2))
                                        (smul (2 * dt) (sim_V sim_ex)) (sim_N sim_ex) (Suc t) b0))
                      (filter (\<lambda>t. int t mod deltaT = 0) [0..<nat (sim_T sim_ex + 1)]))"
    and b: "\<forall>k\<in>{0, sim_N sim_ex - 1}. \<forall>t. sim_V sim_ex ! k = 0 \<longrightarrow>
               psi_r (run (dt / (m (sim_p sim_ex) * (sim_dx sim_ex)\<^sup>2))
                 (smul (2 * dt) (sim_V sim_ex)) (sim_N sim_ex) (Suc t) b0) ! PR ! k = 0 \<and>
               psi_i (run (dt / (m (sim_p sim_ex) * (sim_dx sim_ex)\<^sup>2))
                 (smul (2 * dt) (sim_V sim_ex)) (sim_N sim_ex) (Suc t) b0) ! PR ! k = 0"
    unfolding Let_def by blast
  from s d have s1: "simulate sim_ex 1 =
             Inr (map (\<lambda>t. snapshot_of (run (dt / (m (sim_p sim_ex) * (sim_dx sim_ex)\<^sup>2))
                                        (smul (2 * dt) (sim_V sim_ex)) (sim_N sim_ex) (Suc t) b0))
                      (filter (\<lambda>t. int t mod 1 = 0) [0..<nat (sim_T sim_ex + 1)]))"
    by blast
  from b k v have b1: "psi_r (run (dt / (m (sim_p sim_ex) * (sim_dx sim_ex)\<^sup>2))
                 (smul (2 * dt) (sim_V sim_ex)) (sim_N sim_ex) (Suc 0) b0) ! PR ! 0 = 0 \<and>
               psi_i (run (dt / (m (sim_p sim_ex) * (sim_dx sim_ex)\<^sup>2))
                 (smul (2 * dt) (sim_V sim_ex)) (sim_N sim_ex) (Suc 0) b0) ! PR ! 0 = 0"
    by blast
  from a s1 b1 sim_ex_grid sim_ex_field sim_ex_sigma sim_ex_mass sim_ex_mdx d2 k v
  show ?thesis by blast
qed

text \<open>
  Claim C2 as stated fails on the three-point run: after initialisation and normalisation
  the present real value at index \<open>0\<close> is \<open>a / nrm\<close>, which is not zero; after the first
  pass (the snapshot at \<open>t = 0\<close>) it is \<open>0\<close>.
\<close>

theorem C2_counterexample:
  "initialise sim_ex =
     Inr (\<lparr>psi_r = [[a_ex / nrm_ex, 1 / nrm_ex, a_ex / nrm_ex],
                    [a_ex / nrm_ex, 1 / nrm_ex, a_ex / nrm_ex],
                    [0, 0, 0]],
            psi_i = [[0, 0, 0], [0, 0, 0], [0, 0, 0]]\<rparr>,
          [a_ex\<^sup>2 / (2 * a_ex\<^sup>2 + 1), 1 / (2 * a_ex\<^sup>2 + 1), a_ex\<^sup>2 / (2 * a_ex\<^sup>2 + 1)]) \<and>
   simulate sim_ex 1 =
     Inr [\<lparr>snap_prob = [0, (1 / nrm_ex)\<^sup>2 + ((a_ex - 1) / nrm_ex)\<^sup>2, 0],
           snap_real = [0, 1 / nrm_ex, 0],
           snap_imag = [0, (a_ex - 1) / nrm_ex, 0]\<rparr>] \<and>
   [a_ex / nrm_ex, 1 / nrm_ex, a_ex / nrm_ex] ! 0 \<noteq> [0, 1 / nrm_ex, 0] ! 0"
proof -
  have "0 < a_ex" using a_ex_ge by linarith
  then have "a_ex / nrm_ex \<noteq> 0" using nrm_ex_pos by simp
  then show ?thesis by (simp add: initialise_ex simulate_ex)
qed

subsection \<open>Claim C3: normalisation\<close>

text \<open>
  Claim C3: for every particle and potential combination on a grid of \<open>N\<close> points whose
  initial probability mass \<open>P = dx * sum prob(x, 0)\<close> is positive, initialisation succeeds
  and afterwards \<open>dx\<close> times the sum of the probability density is exactly \<open>1\<close>, both for
  the array \<open>psi_p / P\<close> and for the sum of squares of the normalised real and imaginary
  present rows. (A particle built by the constructor has \<open>sigma \<noteq> 0\<close>.)
\<close>

theorem C3_normalisation:
  assumes grid: "length (sim_scale self) = sim_N self"
    and sig: "sigma (sim_p self) \<noteq> 0"
    and mass: "0 < sim_dx self * sum_list (Particle_prob (sim_p self) (sim_scale self) 0)"
  shows "\<exists>b psi_p. initialise self = Inr (b, psi_p) \<and>
           sim_dx self * sum_list psi_p = 1 \<and>
           sim_dx self * sum_list (map2 (\<lambda>r i. r\<^sup>2 + i\<^sup>2) (psi_r b ! PR) (psi_i b ! PR)) = 1"
proof -
  let ?P = "sim_dx self * sum_list (Particle_prob (sim_p self) (sim_scale self) 0)"
  have sq: "(sqrt ?P)\<^sup>2 = ?P" using mass by simp
  have nz: "?P \<noteq> 0" using mass by (rule less_imp_neq[THEN not_sym])
  have "sim_dx self * (sum_list (Particle_prob (sim_p self) (sim_scale self) 0) / ?P) = ?P / ?P"
    by (simp only: times_divide_eq_right)
  also have "\<dots> = 1" by (rule divide_self[OF nz])
  finally have a: "sim_dx self * sum_list (sdiv (Particle_prob (sim_p self) (sim_scale self) 0) ?P) = 1"
    by (simp only: sum_list_sdiv)
  obtain b psi_p where i: "initialise self = Inr (b, psi_p)"
    and pp: "psi_p = sdiv (Particle_prob (sim_p self) (sim_scale self) 0) ?P"
    and re: "psi_r b ! PR = sdiv (Particle_real (sim_p self) (sim_scale self) 0) (sqrt ?P)"
    and im: "psi_i b ! PR = sdiv (Particle_imag (sim_p self) (sim_scale self) 0) (sqrt ?P)"
    using initialise_ok[OF grid] by (simp add: PR_def)
  have m2: "map2 (\<lambda>r i. r\<^sup>2 + i\<^sup>2) (psi_r b ! PR) (psi_i b ! PR) = psi_p"
    by (simp only: re im pp prob_normalised sq)
  have s1: "sim_dx self * sum_list psi_p = 1" using a by (simp only: pp)
  have s2: "sim_dx self * sum_list (map2 (\<lambda>r i. r\<^sup>2 + i\<^sup>2) (psi_r b ! PR) (psi_i b ! PR)) = 1"
    using s1 by (simp only: m2)
  from i s1 s2 show ?thesis by blast
qed

theorem C3_normalisation_witness:
  "length (sim_scale sim_ex) = sim_N sim_ex \<and> sigma (sim_p sim_ex) \<noteq> 0 \<and>
   0 < sim_dx sim_ex * sum_list (Particle_prob (sim_p sim_ex) (sim_scale sim_ex) 0) \<and>
   (\<exists>b psi_p. initialise sim_ex = Inr (b, psi_p) \<and>
      sim_dx sim_ex * sum_list psi_p = 1 \<and>
      sim_dx sim_ex * sum_list (map2 (\<lambda>r i. r\<^sup>2 + i\<^sup>2) (psi_r b ! PR) (psi_i b ! PR)) = 1)"
  using C3_normalisation[OF sim_ex_grid sim_ex_sigma sim_ex_mass] sim_ex_grid sim_ex_sigma sim_ex_mass
  by (intro conjI)

subsection \<open>Claim C4: the number of snapshots\<close>



subsection \<open>Claim C7: the lengths of the grid and of the potential field\<close>

lemma broadcast_to_length: "broadcast_to n a = Inr a' \<Longrightarrow> length a' = n"
  by (auto simp: broadcast_to_def split: if_splits)

lemma evalPotentials_loop_length:
  "evalPotentials_loop pots scale (ws, V) = Inr (ws', V') \<Longrightarrow> length V' = length V"
proof (induction pots arbitrary: ws V)
  case Nil
  then show ?case by simp
next
  case (Cons pot pots)
  from Cons.prems obtain w a a' where
    f: "Potential_f_arr pot scale = Inr (w, a)" and b: "broadcast_to (length V) a = Inr a'"
    and r: "evalPotentials_loop pots scale (ws @ w, vadd V a') = Inr (ws', V')"
    by (auto simp: bind_err_def split: sum.splits prod.splits)
  from Cons.IH[OF r] broadcast_to_length[OF b] show ?case by (simp add: vadd_def)
qed

lemma arange_length:
  "arange start stop step = Inr xs \<Longrightarrow> length xs = nat \<lceil>fl (fl (stop - start) / step)\<rceil>"
  by (auto simp: arange_def Let_def split: if_splits)

lemma arange_unit_step:
  assumes "0 \<le> N" and "N < 2 ^ 53"
  shows "\<exists>xs. arange 0 (fl (real_of_int N * 1)) 1 = Inr xs \<and> length xs = nat N"
proof -
  have a: "\<bar>N\<bar> < 2 ^ 53" using assms by simp
  have b: "real_of_int N < 2 ^ 1024"
  proof -
    have "real_of_int N < 2 ^ 53" using assms(2) by (metis of_int_less_numeral_power_cancel_iff)
    also have "\<dots> < (2::real) ^ 1024" by (rule power_strict_increasing) simp_all
    finally show ?thesis .
  qed
  have c: "N \<le> 2 ^ 63"
  proof -
    have "(2::int) ^ 53 \<le> 2 ^ 63" by (rule power_increasing) simp_all
    with assms(2) show ?thesis by linarith
  qed
  have "(0::int) < 2 ^ 63" by simp
  with assms(1) have d: "\<not> N < - (2 ^ 63)" by linarith
  show ?thesis
    using assms(1) b c d by (simp add: arange_def fl_of_int[OF a] not_le not_less)
qed

lemma Potential_f_arr_ok:
  assumes "x \<noteq> []"
  shows "\<exists>w r. Potential_f_arr pot x = Inr (w, r) \<and> length r = length x"
proof (cases pot)
  case Null
  then show ?thesis by (simp add: NullPotential_farr_def)
next
  case (Point p)
  then show ?thesis using PointPotential_farr_ok[OF assms] by simp
next
  case (Barrier b)
  then show ?thesis by (simp add: BarrierPotential_farr_def mask_assign_def Let_def)
next
  case (Step s)
  then show ?thesis by (simp add: StepPotential_farr_def mask_assign_def)
qed

lemma evalPotentials_loop_ok:
  assumes "scale \<noteq> []"
  shows "length V = length scale \<Longrightarrow> \<exists>ws' V'. evalPotentials_loop pots scale (ws, V) = Inr (ws', V')"
proof (induction pots arbitrary: ws V)
  case Nil
  then show ?case by simp
next
  case (Cons pot pots)
  from Potential_f_arr_ok[OF assms] obtain w r where
    f: "Potential_f_arr pot scale = Inr (w, r)" and l: "length r = length scale" by blast
  have b: "broadcast_to (length V) r = Inr r" using l Cons.prems by (simp add: broadcast_to_def)
  have "length (vadd V r) = length scale" using l Cons.prems by (simp add: vadd_def)
  from Cons.IH[OF this] show ?case by (simp add: f b bind_err_def)
qed

text \<open>
  Without \<open>xlims\<close>, whenever \<open>np.arange\<close> returns a grid of \<open>N > 0\<close> points, the construction
  succeeds for every list of potentials; with the default \<open>dx = 1\<close> it does so for every
  \<open>N\<close> (below \<open>2 ^ 53\<close>).
\<close>

lemma Simulation_init_ok:
  assumes a: "arange 0 (fl (real_of_int N * dx)) dx = Inr scale"
    and len: "length scale = nat N" and N: "0 < N"
  shows "\<exists>ws self. Simulation_init particle potentials N dx None T dt = Inr (ws, self)"
proof -
  have ne: "scale \<noteq> []" using len N by auto
  have "\<exists>ws' V'. evalPotentials_loop potentials scale ([], replicate (nat N) 0) = Inr (ws', V')"
    by (rule evalPotentials_loop_ok[OF ne]) (simp only: len length_replicate)
  then obtain ws' V' where
    "evalPotentials N potentials scale = Inr (ws', V')"
    using N by (auto simp: evalPotentials_def)
  then show ?thesis
    by (simp add: Simulation_init_def a bind_err_def)
qed

lemma Simulation_init_unit_step_ok:
  assumes "0 < N" and "N < 2 ^ 53"
  shows "\<exists>ws self. Simulation_init particle potentials N 1 None T dt = Inr (ws, self)"
proof -
  from assms have "0 \<le> N" by simp
  from arange_unit_step[OF this assms(2)] obtain xs where
    "arange 0 (fl (real_of_int N * 1)) 1 = Inr xs" "length xs = nat N" by blast
  from Simulation_init_ok[OF this assms(1)] show ?thesis .
qed

text \<open>
  Claim C7, as the code has it: for every Simulation construction that succeeds, the
  potential field has length \<open>N\<close>. The grid has the length that \<open>np.arange\<close> computes from
  \<open>dx\<close> and the limits (\<open>0\<close> and \<open>N*dx\<close>, or \<open>xlims\<close>) in double arithmetic,
  \<open>ceil((endx - startx) / dx)\<close>, and \<open>N\<close> plays no other part in it: the grid has length
  \<open>N\<close> with the default \<open>dx = 1\<close> and no \<open>xlims\<close>, and need not have it otherwise, with
  or without \<open>xlims\<close>.
\<close>

theorem C7_lengths:
  assumes "Simulation_init particle potentials N dx xlims T dt = Inr (ws, self)"
  shows "length (sim_V self) = sim_N self \<and> int (sim_N self) = N \<and>
         length (sim_scale self) =
           nat \<lceil>fl (fl ((case xlims of None \<Rightarrow> fl (real_of_int N * dx) | Some l \<Rightarrow> snd l)
                          - (case xlims of None \<Rightarrow> 0 | Some l \<Rightarrow> fst l)) / dx)\<rceil> \<and>
         (xlims = None \<and> dx = 1 \<and> N < 2 ^ 53 \<longrightarrow> length (sim_scale self) = sim_N self)"
proof -
  let ?startx = "case xlims of None \<Rightarrow> 0 | Some l \<Rightarrow> fst l"
  let ?endx = "case xlims of None \<Rightarrow> fl (real_of_int N * dx) | Some l \<Rightarrow> snd l"
  from assms obtain scale V where
    a: "arange ?startx ?endx dx = Inr scale"
    and e: "evalPotentials N potentials scale = Inr (ws, V)"
    and s: "self = \<lparr>sim_N = nat N, sim_T = (case T of None \<Rightarrow> 5 * N | Some t \<Rightarrow> t), sim_dx = dx,
                    sim_dt = dt, sim_scale = scale, sim_potentials = potentials, sim_V = V,
                    sim_p = particle\<rparr>"
    by (auto simp: Simulation_init_def Let_def bind_err_def split: sum.splits prod.splits)
  from e have N: "0 \<le> N"
    and l: "evalPotentials_loop potentials scale ([], replicate (nat N) 0) = Inr (ws, V)"
    by (auto simp: evalPotentials_def split: if_splits)
  from evalPotentials_loop_length[OF l] have v: "length V = nat N" by simp
  have g: "length scale = nat \<lceil>fl (fl (?endx - ?startx) / dx)\<rceil>" by (rule arange_length[OF a])
  have u: "length scale = nat N" if x: "xlims = None" "dx = 1" "N < 2 ^ 53"
  proof -
    from arange_unit_step[OF N x(3)] obtain xs where
      "arange 0 (fl (real_of_int N * 1)) 1 = Inr xs" "length xs = nat N" by blast
    with a x(1,2) show ?thesis by simp
  qed
  show ?thesis using v N g u by (simp add: s)
qed

theorem C7_lengths_witness:
  "Simulation_init particle_ex [Null] 3 1 None (Some 0) None = Inr ([], sim_ex) \<and>
   length (sim_V sim_ex) = sim_N sim_ex \<and> int (sim_N sim_ex) = 3 \<and>
   (1::real) = 1 \<and> (3::int) < 2 ^ 53 \<and>
   length (sim_scale sim_ex) = sim_N sim_ex"
  using C7_lengths[OF sim_ex_init] sim_ex_init by simp

text \<open>
  Claim C7 as stated fails when \<open>xlims\<close> is supplied:
  \<open>Simulation(particle, [NullPotential()], N=3, dx=1, xlims=(0, 1), T=0)\<close> is constructed
  (the one-element evaluation of the potential is broadcast over the three zeros of the
  field), with a grid of one point and a field of three.
\<close>

theorem C7_counterexample:
  "Simulation_init particle_ex [Null] 3 1 (Some (0, 1)) (Some 0) None =
     Inr ([], \<lparr>sim_N = 3, sim_T = 0, sim_dx = 1, sim_dt = None, sim_scale = [0],
               sim_potentials = [Null], sim_V = [0, 0, 0], sim_p = particle_ex\<rparr>) \<and>
   length [0::real] \<noteq> 3"
  by (simp add: Simulation_init_def arange_def fl_1 bind_err_def evalPotentials_def
      NullPotential_farr_def broadcast_to_def vadd_def numeral_3_eq_3)

text \<open>The same with no potential at all: a grid of two points, a field of three.\<close>

lemma init_xlims_no_potentials:
  "Simulation_init particle_ex [] 3 1 (Some (0, 2)) (Some 0) None =
     Inr ([], \<lparr>sim_N = 3, sim_T = 0, sim_dx = 1, sim_dt = None, sim_scale = [0, 1],
               sim_potentials = [], sim_V = [0, 0, 0], sim_p = particle_ex\<rparr>)"
  by (simp add: Simulation_init_def arange_def fl_2 bind_err_def evalPotentials_def
      numeral_3_eq_3 upt_rec)

text \<open>
  It fails without \<open>xlims\<close> as well: \<open>Simulation(particle, [], N=3, dx=0.1, T=0)\<close> is
  constructed with a grid of four points, since \<open>(3 * 0.1) / 0.1\<close> is
  \<open>3.0000000000000004\<close> in doubles, and a field of three.
\<close>

lemma init_no_xlims_four_points:
  "\<exists>self. Simulation_init particle_ex [] 3 dx_tenth None (Some 0) None = Inr ([], self) \<and>
      sim_N self = 3 \<and> length (sim_V self) = 3 \<and> length (sim_scale self) = 4"
proof -
  have nz: "dx_tenth \<noteq> 0" by (simp add: dx_tenth_def)
  have d: "fl (1351079888211149 / 4503599627370496 - 0) = 1351079888211149 / 4503599627370496"
    using fl_3_tenth_idem by simp
  have "arange 0 (1351079888211149 / 4503599627370496) dx_tenth =
          Inr (map (\<lambda>i. 0 + real i * dx_tenth) [0..<nat 4])"
    unfolding arange_def Let_def d fl_quot ceil_quot using nz by simp
  then have "arange 0 (fl (real_of_int 3 * dx_tenth)) dx_tenth =
          Inr [0, dx_tenth, 2 * dx_tenth, 3 * dx_tenth]"
    by (simp add: fl_3_tenth upt_rec)
  then show ?thesis
    by (simp add: Simulation_init_def bind_err_def evalPotentials_def numeral_3_eq_3)
qed

end
